theory Spec2Isabelle
  imports Main "HOL-Library.AList" "HOL-Library.Sublist"
begin

section \<open>Data model of the MCP client manager\<close>

text \<open>
  The embedding follows \<^verbatim>\<open>MCPClientManager\<close> (mcp-client-manager.js) and
  \<^verbatim>\<open>MCPIntegration\<close> (mcp-integration.js).

  A JavaScript \<^verbatim>\<open>Map\<close> iterates in insertion order, \<^verbatim>\<open>set\<close> on a
  present key replaces the value where it stands and on a new key appends, \<^verbatim>\<open>delete\<close>
  removes the key. It is modelled as an association list: \<^verbatim>\<open>get\<close> is
  \<^const>\<open>map_of\<close>, \<^verbatim>\<open>set\<close> is \<^const>\<open>AList.update\<close>, \<^verbatim>\<open>delete\<close> is
  \<^const>\<open>AList.delete\<close>, \<^verbatim>\<open>clear\<close> is the empty list, \<^verbatim>\<open>entries()\<close> is the
  list itself.

  JSON payloads the code only passes through (schemas, arguments, capabilities, tool
  output) are opaque strings.
\<close>

type_synonym json = string

text \<open>The objects of a \<^verbatim>\<open>tools/list\<close>, \<^verbatim>\<open>resources/list\<close> and
  \<^verbatim>\<open>prompts/list\<close> reply, with the properties the code reads. The registry entry is
  \<^verbatim>\<open>{ serverId, ...tool }\<close>: the owning server's id first, then every property of the
  listed object spread over it. So a listed object that carries a \<^verbatim>\<open>serverId\<close>
  property of its own (\<open>listedServerId\<close>, \<open>None\<close> when it has none; a JSON string when it
  has one) puts it in the owner's place.\<close>

record tool_props =
  name :: string
  description :: string
  inputSchema :: json

record tool = tool_props +
  listedServerId :: "string option"

record tool_entry = tool_props +
  serverId :: string

record resource_props =
  uri :: string
  res_name :: string
  res_description :: string
  mimeType :: string

record resource = resource_props +
  res_listedServerId :: "string option"

record resource_entry = resource_props +
  res_serverId :: string

record prompt_props =
  prompt_name :: string
  prompt_description :: string

record prompt = prompt_props +
  prompt_listedServerId :: "string option"

record prompt_entry = prompt_props +
  prompt_serverId :: string

text \<open>Every \<^verbatim>\<open>throw new Error(...)\<close> and \<^verbatim>\<open>reject(new Error(...))\<close> of the
  manager is a constructor, named after the failure it reports:
  \<^item> \<open>ToolNotFound n\<close>: \<^verbatim>\<open>Tool 'n' not found\<close> (callTool, executeTool);
  \<^item> \<open>ServerUnavailable s\<close>: \<^verbatim>\<open>Server 's' is not connected\<close> (callTool);
  \<^item> \<open>NotConnected s\<close>: \<^verbatim>\<open>Server s is not connected\<close> (sendCommand);
  \<^item> \<open>CommandTimeout t\<close>: \<^verbatim>\<open>Command timeout after ts\<close> (sendCommand's timer);
  \<^item> \<open>RPCError msg\<close>: the \<^verbatim>\<open>error.message\<close> of a JSON-RPC error reply
    (handleJSONRPCMessage);
  \<^item> \<open>TransportError msg\<close>: a failure of the HTTP request (status \<open>\<ge> 400\<close>, timeout,
    invalid JSON body, network error) in makeSSERequest, or any other failure of the stream;
  \<^item> \<open>SSEConnectionFailed e\<close>, \<open>CommandConnectionFailed e\<close>: the wrapped errors of
    createSSEConnection and createCommandConnection;
  \<^item> \<open>InvalidConfiguration s\<close>: \<^verbatim>\<open>Invalid server configuration for s\<close>.\<close>

datatype error =
    ToolNotFound string
  | ServerUnavailable string
  | NotConnected string
  | CommandTimeout nat
  | RPCError string
  | TransportError string
  | SSEConnectionFailed error
  | CommandConnectionFailed error
  | InvalidConfiguration string

text \<open>The \<^verbatim>\<open>params\<close> of the three kinds of request the manager builds.\<close>

datatype params =
    InitializeParams
  | EmptyParams
  | ToolCallParams string json

text \<open>The \<^verbatim>\<open>result\<close> object of a reply; a property that is absent is \<open>None\<close>.\<close>

record result =
  res_tools :: "tool list option"
  res_resources :: "resource list option"
  res_prompts :: "prompt list option"
  res_capabilities :: "json option"
  res_content :: json

text \<open>A parsed JSON-RPC message from a server: \<^verbatim>\<open>id\<close> (\<open>None\<close> when absent or
  not a number), \<^verbatim>\<open>error\<close> (\<open>Some msg\<close> when an error object is present, \<open>msg\<close> its
  \<^verbatim>\<open>message\<close>), \<^verbatim>\<open>result\<close>.\<close>

record rpc_message =
  rpc_id :: "nat option"
  rpc_error :: "string option"
  rpc_result :: "result option"

datatype server_type = SSE | Command

text \<open>The server object of createSSEConnection and createCommandConnection.
  \<open>process\<close> tells whether \<^verbatim>\<open>server.process\<close> holds a child process (it is
  \<^verbatim>\<open>null\<close> before the spawn, and absent on an SSE server). \<open>responseHandlers\<close> is the
  pending-request table: request id to the promise whose \<^verbatim>\<open>resolve\<close> and
  \<^verbatim>\<open>reject\<close> the entry holds; a promise is named by a number.\<close>

record server =
  sid :: string
  stype :: server_type
  url :: string
  timeout :: nat
  process :: bool
  connected :: bool
  capabilities :: json
  responseHandlers :: "(nat \<times> nat) list"

text \<open>A server's entry of the configuration: \<^verbatim>\<open>type\<close>, \<^verbatim>\<open>command\<close> and
  \<^verbatim>\<open>url\<close> (the empty string when absent) and \<^verbatim>\<open>timeout\<close> (0 when absent: both
  are falsy in \<^verbatim>\<open>config.timeout || 300\<close>).\<close>

record server_config =
  cfg_type :: string
  cfg_command :: string
  cfg_url :: string
  cfg_timeout :: nat

text \<open>The manager. \<open>serverConfigs\<close> is \<^verbatim>\<open>Object.entries(this.serverConfigs)\<close>, the
  configured servers in iteration order. \<open>sent\<close> is not a field of the class: it records,
  in order, every request written to a transport (one HTTP POST or one line on a process's
  input stream), as the \<^verbatim>\<open>id\<close> of the server object it was sent through, the method
  and the params.\<close>

record manager =
  servers :: "(string \<times> server) list"
  tools :: "(string \<times> tool_entry) list"
  resources :: "(string \<times> resource_entry) list"
  prompts :: "(string \<times> prompt_entry) list"
  isInitialized :: bool
  serverConfigs :: "(string \<times> server_config) list"
  sent :: "(string \<times> string \<times> params) list"

text \<open>The servers behind the transports: for a request that was sent through the server
  object with a given id, the value its promise settles with, a reply or a failure. Every
  request that was sent is taken to settle: sendCommand's timer rejects a call that gets no
  reply and makeSSERequest's timer rejects a request that gets no response; a response whose
  body never ends (its timer is cleared when the response starts) is outside the model. What
  comes back is taken to depend on the server, the method and the params, not on the
  request's \<^verbatim>\<open>id\<close>.\<close>

type_synonym upstream = "string \<Rightarrow> string \<Rightarrow> params \<Rightarrow> error + rpc_message"

section \<open>Requests\<close>

text \<open>makeSSERequest: one HTTP POST; the promise settles with the parsed body or a failure.
  Only requests that settle are covered: the run in which the response starts (which clears
  the timer) and its body never ends, so that the caller waits for ever, has no
  counterpart here.\<close>

definition makeSSERequest ::
  "upstream \<Rightarrow> manager \<Rightarrow> server \<Rightarrow> string \<Rightarrow> params \<Rightarrow> manager \<times> (error + rpc_message)" where
  "makeSSERequest up m server method ps =
     (m\<lparr>sent := sent m @ [(sid server, method, ps)]\<rparr>, up (sid server) method ps)"

text \<open>sendCommand, seen from the caller that awaits it: rejected at once when the server has
  no process or is not connected; otherwise the handler is stored, the request is written
  to the process's input stream, and the promise settles with what comes back. The table
  of pending handlers itself is modelled in the section on the process transport.\<close>

definition await_sendCommand ::
  "upstream \<Rightarrow> manager \<Rightarrow> server \<Rightarrow> string \<Rightarrow> params \<Rightarrow> manager \<times> (error + rpc_message)" where
  "await_sendCommand up m server method ps =
     (if \<not> process server \<or> \<not> connected server then (m, Inl (NotConnected (sid server)))
      else (m\<lparr>sent := sent m @ [(sid server, method, ps)]\<rparr>, up (sid server) method ps))"

text \<open>callServerMethod. The third branch of the source (\<^verbatim>\<open>Unknown server type\<close>) has no
  server object that reaches it: \<^verbatim>\<open>type\<close> is only ever \<^verbatim>\<open>'sse'\<close> or
  \<^verbatim>\<open>'command'\<close>.\<close>

definition callServerMethod ::
  "upstream \<Rightarrow> manager \<Rightarrow> server \<Rightarrow> string \<Rightarrow> params \<Rightarrow> manager \<times> (error + rpc_message)" where
  "callServerMethod up m server method ps =
     (case stype server of
        SSE \<Rightarrow> makeSSERequest up m server method ps
      | Command \<Rightarrow> await_sendCommand up m server method ps)"

section \<open>callTool\<close>

definition endsWith :: "string \<Rightarrow> string \<Rightarrow> bool" where
  "endsWith key s = suffix s key"

text \<open>The loop over \<^verbatim>\<open>this.tools.entries()\<close> that stops at the first key ending with
  \<^verbatim>\<open>/toolName\<close>.\<close>

fun firstBySuffix :: "(string \<times> tool_entry) list \<Rightarrow> string \<Rightarrow> tool_entry option" where
  "firstBySuffix [] toolName = None"
| "firstBySuffix ((key, value) # rest) toolName =
     (if endsWith key (''/'' @ toolName) then Some value else firstBySuffix rest toolName)"

definition findTool :: "manager \<Rightarrow> string \<Rightarrow> tool_entry option" where
  "findTool m toolName =
     (case map_of (tools m) toolName of
        Some tool \<Rightarrow> Some tool
      | None \<Rightarrow> firstBySuffix (tools m) toolName)"

definition callTool ::
  "upstream \<Rightarrow> manager \<Rightarrow> string \<Rightarrow> json \<Rightarrow> manager \<times> (error + result option)" where
  "callTool up m toolName args =
     (case findTool m toolName of
        None \<Rightarrow> (m, Inl (ToolNotFound toolName))
      | Some tool \<Rightarrow>
          (case map_of (servers m) (serverId tool) of
             None \<Rightarrow> (m, Inl (ServerUnavailable (serverId tool)))
           | Some server \<Rightarrow>
               if \<not> connected server then (m, Inl (ServerUnavailable (serverId tool)))
               else
                 (case callServerMethod up m server ''tools/call''
                         (ToolCallParams (name tool) args) of
                    (m', Inl e) \<Rightarrow> (m', Inl e)
                  | (m', Inr response) \<Rightarrow> (m', Inr (rpc_result response)))))"

section \<open>Connecting and discovery\<close>

definition new_manager :: "(string \<times> server_config) list \<Rightarrow> manager" where
  "new_manager config =
     \<lparr>servers = [], tools = [], resources = [], prompts = [], isInitialized = False,
      serverConfigs = config, sent = []\<rparr>"

text \<open>\<^verbatim>\<open>response.result?.capabilities || {}\<close>\<close>

definition declaredCapabilities :: "rpc_message \<Rightarrow> json" where
  "declaredCapabilities response =
     (case rpc_result response of
        None \<Rightarrow> ''{}''
      | Some r \<Rightarrow> (case res_capabilities r of None \<Rightarrow> ''{}'' | Some c \<Rightarrow> c))"

definition createSSEConnection ::
  "upstream \<Rightarrow> manager \<Rightarrow> string \<Rightarrow> server_config \<Rightarrow> manager \<times> (error + server)" where
  "createSSEConnection up m srvId config =
     (let server = \<lparr>sid = srvId, stype = SSE, url = cfg_url config,
                     timeout = (if cfg_timeout config = 0 then 300 else cfg_timeout config),
                     process = False, connected = False, capabilities = ''{}'',
                     responseHandlers = []\<rparr>
      in case makeSSERequest up m server ''initialize'' InitializeParams of
           (m', Inl e) \<Rightarrow> (m', Inl (SSEConnectionFailed e))
         | (m', Inr response) \<Rightarrow>
             (m', Inr (server\<lparr>connected := True,
                              capabilities := declaredCapabilities response\<rparr>)))"

text \<open>createCommandConnection: the server object starts with \<^verbatim>\<open>process: null\<close> and
  \<^verbatim>\<open>connected: false\<close> (\<open>newCommandServer\<close>); \<^verbatim>\<open>spawn\<close> (with
  \<^verbatim>\<open>shell: true\<close>, which reports a failing command by an event, not by throwing) sets
  the process and the \<^verbatim>\<open>error\<close>, \<^verbatim>\<open>exit\<close> and \<^verbatim>\<open>data\<close> handlers are put
  on it (\<open>spawnedServer\<close>); then the \<^verbatim>\<open>initialize\<close> request goes through
  sendCommand, and only after its reply \<^verbatim>\<open>connected\<close> becomes true.\<close>

definition newCommandServer :: "string \<Rightarrow> server_config \<Rightarrow> server" where
  "newCommandServer srvId config =
     \<lparr>sid = srvId, stype = Command, url = [],
      timeout = (if cfg_timeout config = 0 then 300 else cfg_timeout config),
      process = False, connected = False, capabilities = ''{}'', responseHandlers = []\<rparr>"

definition spawnedServer :: "string \<Rightarrow> server_config \<Rightarrow> server" where
  "spawnedServer srvId config = (newCommandServer srvId config)\<lparr>process := True\<rparr>"

definition createCommandConnection ::
  "upstream \<Rightarrow> manager \<Rightarrow> string \<Rightarrow> server_config \<Rightarrow> manager \<times> (error + server)" where
  "createCommandConnection up m srvId config =
     (let server = spawnedServer srvId config
      in case await_sendCommand up m server ''initialize'' InitializeParams of
           (m', Inl e) \<Rightarrow> (m', Inl (CommandConnectionFailed e))
         | (m', Inr initResponse) \<Rightarrow>
             (m', Inr (server\<lparr>connected := True,
                              capabilities := declaredCapabilities initResponse\<rparr>)))"

definition toolKey :: "string \<Rightarrow> string \<Rightarrow> string" where
  "toolKey srvId n = srvId @ ''/'' @ n"

text \<open>\<^verbatim>\<open>{ serverId, ...tool }\<close>, \<^verbatim>\<open>{ serverId, ...resource }\<close> and
  \<^verbatim>\<open>{ serverId, ...prompt }\<close>: the \<^verbatim>\<open>serverId\<close> of the entry is the listed
  object's own when it has one, the owning server's otherwise.\<close>

definition toolEntry :: "string \<Rightarrow> tool \<Rightarrow> tool_entry" where
  "toolEntry srvId t =
     \<lparr>name = name t, description = description t, inputSchema = inputSchema t,
      serverId = (case listedServerId t of None \<Rightarrow> srvId | Some listed \<Rightarrow> listed)\<rparr>"

definition resourceEntry :: "string \<Rightarrow> resource \<Rightarrow> resource_entry" where
  "resourceEntry srvId r =
     \<lparr>uri = uri r, res_name = res_name r, res_description = res_description r,
      mimeType = mimeType r,
      res_serverId = (case res_listedServerId r of None \<Rightarrow> srvId | Some listed \<Rightarrow> listed)\<rparr>"

definition promptEntry :: "string \<Rightarrow> prompt \<Rightarrow> prompt_entry" where
  "promptEntry srvId p =
     \<lparr>prompt_name = prompt_name p, prompt_description = prompt_description p,
      prompt_serverId =
        (case prompt_listedServerId p of None \<Rightarrow> srvId | Some listed \<Rightarrow> listed)\<rparr>"

definition setTool :: "string \<Rightarrow> manager \<Rightarrow> tool \<Rightarrow> manager" where
  "setTool srvId m t =
     m\<lparr>tools := AList.update (toolKey srvId (name t)) (toolEntry srvId t) (tools m)\<rparr>"

definition setResource :: "string \<Rightarrow> manager \<Rightarrow> resource \<Rightarrow> manager" where
  "setResource srvId m r =
     m\<lparr>resources := AList.update (toolKey srvId (uri r)) (resourceEntry srvId r) (resources m)\<rparr>"

definition setPrompt :: "string \<Rightarrow> manager \<Rightarrow> prompt \<Rightarrow> manager" where
  "setPrompt srvId m p =
     m\<lparr>prompts := AList.update (toolKey srvId (prompt_name p)) (promptEntry srvId p)
          (prompts m)\<rparr>"

text \<open>The three \<^verbatim>\<open>if (response.result?.xs) for (const x of ...) this.xs.set(...)\<close>
  blocks of initializeServerCapabilities.\<close>

definition storeTools :: "string \<Rightarrow> manager \<Rightarrow> rpc_message \<Rightarrow> manager" where
  "storeTools srvId m toolsResponse =
     (case rpc_result toolsResponse of
        None \<Rightarrow> m
      | Some r \<Rightarrow> (case res_tools r of None \<Rightarrow> m | Some ts \<Rightarrow> foldl (setTool srvId) m ts))"

definition storeResources :: "string \<Rightarrow> manager \<Rightarrow> rpc_message \<Rightarrow> manager" where
  "storeResources srvId m resourcesResponse =
     (case rpc_result resourcesResponse of
        None \<Rightarrow> m
      | Some r \<Rightarrow>
          (case res_resources r of None \<Rightarrow> m | Some rs \<Rightarrow> foldl (setResource srvId) m rs))"

definition storePrompts :: "string \<Rightarrow> manager \<Rightarrow> rpc_message \<Rightarrow> manager" where
  "storePrompts srvId m promptsResponse =
     (case rpc_result promptsResponse of
        None \<Rightarrow> m
      | Some r \<Rightarrow>
          (case res_prompts r of None \<Rightarrow> m | Some ps \<Rightarrow> foldl (setPrompt srvId) m ps))"

text \<open>initializeServerCapabilities: one \<^verbatim>\<open>try\<close> block around the three awaited calls, in
  the order tools, resources, prompts; the \<^verbatim>\<open>catch\<close> logs and returns.\<close>

definition initializeServerCapabilities ::
  "upstream \<Rightarrow> manager \<Rightarrow> string \<Rightarrow> server \<Rightarrow> manager" where
  "initializeServerCapabilities up m srvId server =
     (case callServerMethod up m server ''tools/list'' EmptyParams of
        (m1, Inl e) \<Rightarrow> m1
      | (m1, Inr toolsResponse) \<Rightarrow>
          (case callServerMethod up (storeTools srvId m1 toolsResponse) server
                  ''resources/list'' EmptyParams of
             (m2, Inl e) \<Rightarrow> m2
           | (m2, Inr resourcesResponse) \<Rightarrow>
               (case callServerMethod up (storeResources srvId m2 resourcesResponse) server
                       ''prompts/list'' EmptyParams of
                  (m3, Inl e) \<Rightarrow> m3
                | (m3, Inr promptsResponse) \<Rightarrow> storePrompts srvId m3 promptsResponse)))"

text \<open>connectToServer: \<open>None\<close> when it returns, \<open>Some e\<close> when it throws \<open>e\<close>.\<close>

definition connectToServer ::
  "upstream \<Rightarrow> manager \<Rightarrow> string \<Rightarrow> server_config \<Rightarrow> manager \<times> error option" where
  "connectToServer up m srvId config =
     (case (if cfg_type config = ''sse'' then createSSEConnection up m srvId config
            else if cfg_command config \<noteq> [] then createCommandConnection up m srvId config
            else (m, Inl (InvalidConfiguration srvId))) of
        (m', Inl e) \<Rightarrow> (m', Some e)
      | (m', Inr server) \<Rightarrow>
          (initializeServerCapabilities up
             (m'\<lparr>servers := AList.update srvId server (servers m')\<rparr>) srvId server,
           None))"

text \<open>The loop of initialize: each connectToServer is awaited inside its own
  \<^verbatim>\<open>try\<close>; the \<^verbatim>\<open>catch\<close> logs and goes on to the next server.\<close>

fun connectAll :: "upstream \<Rightarrow> manager \<Rightarrow> (string \<times> server_config) list \<Rightarrow> manager" where
  "connectAll up m [] = m"
| "connectAll up m ((srvId, serverConfig) # rest) =
     connectAll up (fst (connectToServer up m srvId serverConfig)) rest"

definition initialize :: "upstream \<Rightarrow> manager \<Rightarrow> manager" where
  "initialize up m =
     (if isInitialized m then m
      else (connectAll up m (serverConfigs m))\<lparr>isInitialized := True\<rparr>)"

text \<open>shutdown: every process is sent SIGTERM and every server object marked not connected,
  then the four maps are cleared, so no server object stays reachable from the manager.\<close>

definition shutdown :: "manager \<Rightarrow> manager" where
  "shutdown m =
     m\<lparr>servers := [], tools := [], resources := [], prompts := [], isInitialized := False\<rparr>"

text \<open>getAvailableTools: the snapshot a reader takes of the tools registry, as
  (id, name, description, server, inputSchema).\<close>

definition getAvailableTools ::
  "manager \<Rightarrow> (string \<times> string \<times> string \<times> string \<times> json) list" where
  "getAvailableTools m =
     map (\<lambda>(key, tool). (key, name tool, description tool, serverId tool, inputSchema tool))
       (tools m)"

text \<open>initialize awaits each connectToServer in turn, and every await gives way to the event
  loop, where a handler such as \<^verbatim>\<open>mcp-get-tools\<close> (registered before the manager's
  initialize is awaited) may run. \<open>initializeProgress up m k\<close> holds the maps such a reader
  finds while the connect of server number \<open>k\<close> (from 0) is awaited: the first \<open>k\<close>
  iterations of the loop are done.\<close>

definition initializeProgress :: "upstream \<Rightarrow> manager \<Rightarrow> nat \<Rightarrow> manager" where
  "initializeProgress up m k = connectAll up m (take k (serverConfigs m))"

section \<open>The process transport: pending requests\<close>

text \<open>What a callback of the process transport does besides updating the server object:
  it calls the \<^verbatim>\<open>resolve\<close> or \<^verbatim>\<open>reject\<close> of a promise, emits an event of the
  manager, or writes a request line to the process's input stream.\<close>

datatype settlement = Resolved rpc_message | Rejected error

datatype effect =
    Settle nat settlement
  | Emit string
  | Write nat string params

text \<open>The request object handed to sendCommand.\<close>

record request =
  req_id :: nat
  req_method :: string
  req_params :: params

text \<open>sendCommand, the body of the promise \<open>p\<close> it creates, run at clock value \<open>now\<close>
  (\<^verbatim>\<open>Date.now()\<close>): \<^verbatim>\<open>message.id || Date.now()\<close> is the key under which
  \<^verbatim>\<open>{ resolve, reject }\<close> of \<open>p\<close> is stored, with no look at what the key holds.\<close>

definition sendCommand :: "server \<Rightarrow> nat \<Rightarrow> nat \<Rightarrow> request \<Rightarrow> server \<times> effect list" where
  "sendCommand server p now message =
     (if \<not> process server \<or> \<not> connected server
      then (server, [Settle p (Rejected (NotConnected (sid server)))])
      else
        (let messageId = (if req_id message \<noteq> 0 then req_id message else now)
         in (server\<lparr>responseHandlers := AList.update messageId p (responseHandlers server)\<rparr>,
             [Write messageId (req_method message) (req_params message)])))"

text \<open>The timer callback sendCommand sets for \<open>messageId\<close>: it rejects the promise \<open>p\<close> of
  the call that set the timer, if the table has the key.\<close>

definition commandTimeout :: "server \<Rightarrow> nat \<Rightarrow> nat \<Rightarrow> server \<times> effect list" where
  "commandTimeout server messageId p =
     (if map_of (responseHandlers server) messageId \<noteq> None
      then (server\<lparr>responseHandlers := AList.delete messageId (responseHandlers server)\<rparr>,
            [Settle p (Rejected (CommandTimeout (timeout server)))])
      else (server, []))"

text \<open>handleJSONRPCMessage. \<^verbatim>\<open>message.id && ...\<close> is false for an absent id and for
  id 0; \<^verbatim>\<open>message.error.message || 'Unknown RPC error'\<close> replaces an empty message.\<close>

definition handleJSONRPCMessage :: "server \<Rightarrow> rpc_message \<Rightarrow> server \<times> effect list" where
  "handleJSONRPCMessage server message =
     (case (case rpc_id message of
              None \<Rightarrow> None
            | Some i \<Rightarrow> if i \<noteq> 0 then map_option (Pair i) (map_of (responseHandlers server) i)
                        else None) of
        Some (i, handler) \<Rightarrow>
          (server\<lparr>responseHandlers := AList.delete i (responseHandlers server)\<rparr>,
           [Settle handler
              (case rpc_error message of
                 Some msg \<Rightarrow> Rejected (RPCError (if msg = [] then ''Unknown RPC error'' else msg))
               | None \<Rightarrow> Resolved message)])
      | None \<Rightarrow> (server, [Emit ''server-message'']))"

text \<open>The \<^verbatim>\<open>exit\<close> handler of the spawned process, for any code and signal.\<close>

definition processExit :: "server \<Rightarrow> server \<times> effect list" where
  "processExit server = (server\<lparr>connected := False\<rparr>, [Emit ''server-disconnected''])"

text \<open>callServerMethod on a command server: the request gets \<^verbatim>\<open>id: Date.now()\<close>.\<close>

definition callServerMethod_command ::
  "server \<Rightarrow> nat \<Rightarrow> nat \<Rightarrow> string \<Rightarrow> params \<Rightarrow> server \<times> effect list" where
  "callServerMethod_command server p now method ps =
     sendCommand server p now \<lparr>req_id = now, req_method = method, req_params = ps\<rparr>"

text \<open>The promises an effect list settles.\<close>

fun settled :: "effect list \<Rightarrow> nat list" where
  "settled [] = []"
| "settled (Settle p s # es) = p # settled es"
| "settled (e # es) = settled es"

section \<open>Runs of the process transport\<close>

text \<open>What can happen to a command server object, one callback at a time: a parsed line
  arrives, the timer of the call with a given request id and promise fires, the process
  exits, or sendCommand is called for a new promise.\<close>

datatype event =
    Incoming rpc_message
  | TimerFires nat nat
  | ProcessExit
  | SendCommand nat nat request

fun step :: "server \<Rightarrow> event \<Rightarrow> server \<times> effect list" where
  "step s (Incoming message) = handleJSONRPCMessage s message"
| "step s (TimerFires messageId p) = commandTimeout s messageId p"
| "step s ProcessExit = processExit s"
| "step s (SendCommand p now message) = sendCommand s p now message"

fun run :: "server \<Rightarrow> event list \<Rightarrow> server" where
  "run s [] = s"
| "run s (ev # evs) = run (fst (step s ev)) evs"

text \<open>The promise \<open>p\<close> is not handed to sendCommand again: a promise is created by one call
  of sendCommand.\<close>

fun sendsPromise :: "nat \<Rightarrow> event \<Rightarrow> bool" where
  "sendsPromise p (SendCommand q now message) = (q = p)"
| "sendsPromise p ev = False"


section \<open>The integration layer\<close>

text \<open>The descriptor registerTools builds from a registry entry \<open>(toolKey, tool)\<close>;
  \<open>at_toolKey\<close> is the \<^verbatim>\<open>toolKey\<close> its \<^verbatim>\<open>execute\<close> closure holds.\<close>

record agentTool =
  at_name :: string
  at_description :: string
  at_server :: string
  at_schema :: json
  at_toolKey :: string

text \<open>The integration object. \<open>ipcHandlers\<close> is not a field of the class: it tells whether
  setupIPCHandlers has run, since the handlers it gives to \<^verbatim>\<open>ipcMain.handle\<close> stay
  registered in the process and a second registration of a channel throws.\<close>

record integration =
  mcpManager :: "manager option"
  int_isInitialized :: bool
  toolRegistry :: "(string \<times> agentTool) list"
  ipcHandlers :: bool

definition new_integration :: integration where
  "new_integration =
     \<lparr>mcpManager = None, int_isInitialized = False, toolRegistry = [], ipcHandlers = False\<rparr>"

definition agentOf :: "string \<times> tool_entry \<Rightarrow> agentTool" where
  "agentOf kt =
     \<lparr>at_name = name (snd kt), at_description = description (snd kt),
      at_server = serverId (snd kt), at_schema = inputSchema (snd kt), at_toolKey = fst kt\<rparr>"

text \<open>One iteration of registerTools' loop:
  \<^verbatim>\<open>this.toolRegistry.set(tool.name, agentTool)\<close>.\<close>

definition setAgentTool ::
  "(string \<times> agentTool) list \<Rightarrow> string \<times> tool_entry \<Rightarrow> (string \<times> agentTool) list" where
  "setAgentTool reg kt = AList.update (name (snd kt)) (agentOf kt) reg"

definition registerTools :: "integration \<Rightarrow> integration" where
  "registerTools it =
     (case mcpManager it of
        None \<Rightarrow> it
      | Some m \<Rightarrow> it\<lparr>toolRegistry := foldl setAgentTool [] (tools m)\<rparr>)"

text \<open>Three more errors, of the integration layer: loadMCPConfig's
  \<^verbatim>\<open>MCP configuration file not found or invalid\<close>, the TypeError of calling a method
  of \<^verbatim>\<open>this.mcpManager\<close> when it is \<^verbatim>\<open>null\<close>, and the error of
  \<^verbatim>\<open>ipcMain.handle\<close> for a channel that already has a handler.\<close>

datatype int_error =
    ConfigurationInvalid
  | ManagerIsNull
  | HandlerRegisteredTwice
  | ManagerError error

text \<open>executeTool: the registry entry's \<^verbatim>\<open>execute\<close> calls the manager's callTool with the
  key it holds.\<close>

definition executeTool ::
  "upstream \<Rightarrow> integration \<Rightarrow> string \<Rightarrow> json \<Rightarrow> integration \<times> (int_error + result option)" where
  "executeTool up it toolName args =
     (case map_of (toolRegistry it) toolName of
        None \<Rightarrow> (it, Inl (ManagerError (ToolNotFound toolName)))
      | Some tool \<Rightarrow>
          (case mcpManager it of
             None \<Rightarrow> (it, Inl ManagerIsNull)
           | Some m \<Rightarrow>
               (case callTool up m (at_toolKey tool) args of
                  (m', Inl e) \<Rightarrow> (it\<lparr>mcpManager := Some m'\<rparr>, Inl (ManagerError e))
                | (m', Inr r) \<Rightarrow> (it\<lparr>mcpManager := Some m'\<rparr>, Inr r))))"

text \<open>MCPIntegration.initialize; \<open>configFile\<close> is what loadMCPConfig reads (\<open>None\<close> when the
  file is missing or invalid). In the order of the source: the early return when already
  initialized; the configuration is loaded; a new manager is stored; setupEventHandlers
  subscribes to it; setupIPCHandlers registers the handlers, which throws when they are
  registered already; the manager's initialize is awaited, whose \<^verbatim>\<open>initialized\<close>
  event runs updateToolRegistry, hence registerTools; registerTools is called; the flag is
  set. Every error is logged and thrown again.\<close>

definition int_initialize ::
  "upstream \<Rightarrow> (string \<times> server_config) list option \<Rightarrow> integration
     \<Rightarrow> integration \<times> int_error option" where
  "int_initialize up configFile it =
     (if int_isInitialized it then (it, None)
      else
        (case configFile of
           None \<Rightarrow> (it, Some ConfigurationInvalid)
         | Some config \<Rightarrow>
             (let it0 = it\<lparr>mcpManager := Some (new_manager config)\<rparr>
              in if ipcHandlers it0 then (it0, Some HandlerRegisteredTwice)
                 else
                   (let it1 = it0\<lparr>ipcHandlers := True,
                                   mcpManager := Some (initialize up (new_manager config))\<rparr>;
                        it2 = registerTools (registerTools it1)
                    in (it2\<lparr>int_isInitialized := True\<rparr>, None)))))"

text \<open>MCPIntegration.shutdown: the manager is shut down and dropped, the registry cleared,
  the flag reset; the IPC handlers stay registered.\<close>

definition int_shutdown :: "integration \<Rightarrow> integration" where
  "int_shutdown it = it\<lparr>mcpManager := None, toolRegistry := [], int_isInitialized := False\<rparr>"

text \<open>The \<^verbatim>\<open>mcp-refresh\<close> handler: the manager's shutdown, then the integration's own
  initialize; the result is the handler's return value.\<close>

definition refresh ::
  "upstream \<Rightarrow> (string \<times> server_config) list option \<Rightarrow> integration \<Rightarrow> integration \<times> bool" where
  "refresh up configFile it =
     (case mcpManager it of
        None \<Rightarrow> (it, False)
      | Some m \<Rightarrow>
          (case int_initialize up configFile (it\<lparr>mcpManager := Some (shutdown m)\<rparr>) of
             (it', None) \<Rightarrow> (it', True)
           | (it', Some e) \<Rightarrow> (it', False)))"

text \<open>The manager's tools registry as the integration layer holds it.\<close>

definition managerTools :: "integration \<Rightarrow> (string \<times> tool_entry) list" where
  "managerTools it = (case mcpManager it of None \<Rightarrow> [] | Some m \<Rightarrow> tools m)"

section \<open>Notions the statements use\<close>

text \<open>A configured server connects when connectToServer returns for it without throwing.
  Whether it throws does not depend on the manager it runs in.\<close>

definition connectSucceeds :: "upstream \<Rightarrow> string \<times> server_config \<Rightarrow> bool" where
  "connectSucceeds up c = (snd (connectToServer up (new_manager []) (fst c) (snd c)) = None)"

text \<open>Every server object of the map is marked connected and stored under its own id.\<close>

definition allConnected :: "(string \<times> server) list \<Rightarrow> bool" where
  "allConnected ss = list_all (\<lambda>(k, s). connected s \<and> sid s = k) ss"


text \<open>The keys of each registry of \<open>m\<close>, in order, are the first keys of the same registry
  of \<open>m'\<close>.\<close>

definition registriesExtend :: "manager \<Rightarrow> manager \<Rightarrow> bool" where
  "registriesExtend m m' =
     (prefix (map fst (tools m)) (map fst (tools m'))
      \<and> prefix (map fst (resources m)) (map fst (resources m'))
      \<and> prefix (map fst (prompts m)) (map fst (prompts m')))"

text \<open>Every key of a tools registry ends with \<open>/\<close> and the name of its entry: it is
  \<open>owner/name\<close> for the server \<open>owner\<close> that listed the tool.\<close>

definition nameKeyed :: "(string \<times> tool_entry) list \<Rightarrow> bool" where
  "nameKeyed ts = list_all (\<lambda>(key, t). endsWith key (''/'' @ name t)) ts"


section \<open>A configuration to run the model on\<close>

text \<open>Four configured servers, in this order: \<open>alpha\<close>, remote, lists one tool
  \<open>echo\<close>; \<open>gamma\<close>, remote, answers every request with HTTP 500; \<open>delta\<close> is a spawned
  process; \<open>beta\<close>, remote, lists one tool \<open>echo\<close> too.\<close>

definition sseConfig :: "string \<Rightarrow> server_config" where
  "sseConfig u = \<lparr>cfg_type = ''sse'', cfg_command = [], cfg_url = u, cfg_timeout = 0\<rparr>"

definition commandConfig :: "string \<Rightarrow> server_config" where
  "commandConfig c = \<lparr>cfg_type = [], cfg_command = c, cfg_url = [], cfg_timeout = 0\<rparr>"

definition ex_config :: "(string \<times> server_config) list" where
  "ex_config =
     [(''alpha'', sseConfig ''http://a''), (''gamma'', sseConfig ''http://c''),
      (''delta'', commandConfig ''npx''), (''beta'', sseConfig ''http://b'')]"

definition noResult :: result where
  "noResult = \<lparr>res_tools = None, res_resources = None, res_prompts = None,
               res_capabilities = None, res_content = []\<rparr>"

definition okReply :: "result \<Rightarrow> error + rpc_message" where
  "okReply r = Inr \<lparr>rpc_id = Some 1, rpc_error = None, rpc_result = Some r\<rparr>"

definition echoTool :: tool where
  "echoTool =
     \<lparr>name = ''echo'', description = ''Echo'', inputSchema = ''{}'', listedServerId = None\<rparr>"

definition readme :: resource where
  "readme = \<lparr>uri = ''file:///readme'', res_name = ''readme'', res_description = [],
             mimeType = ''text/plain'', res_listedServerId = None\<rparr>"

definition ex_upstream :: upstream where
  "ex_upstream srv method ps =
     (if srv = ''gamma'' then Inl (TransportError ''HTTP 500'')
      else if method = ''tools/list'' then okReply (noResult\<lparr>res_tools := Some [echoTool]\<rparr>)
      else if method = ''resources/list'' then okReply (noResult\<lparr>res_resources := Some [readme]\<rparr>)
      else if method = ''prompts/list'' then okReply (noResult\<lparr>res_prompts := Some []\<rparr>)
      else if method = ''tools/call'' then okReply (noResult\<lparr>res_content := ''hi''\<rparr>)
      else okReply noResult)"



definition sseServer :: "string \<Rightarrow> string \<Rightarrow> server" where
  "sseServer srvId u =
     \<lparr>sid = srvId, stype = SSE, url = u, timeout = 300, process = False, connected = True,
      capabilities = ''{}'', responseHandlers = []\<rparr>"

text \<open>A command server object that is connected and has no request pending.\<close>

definition commandServer :: "string \<Rightarrow> server" where
  "commandServer srvId =
     \<lparr>sid = srvId, stype = Command, url = [], timeout = 300, process = True, connected = True,
      capabilities = ''{}'', responseHandlers = []\<rparr>"

text \<open>A manager with \<open>alpha\<close> and \<open>beta\<close> connected and a third server \<open>zeta\<close>, a process
  that has exited.\<close>

definition ex_manager :: manager where
  "ex_manager =
     \<lparr>servers = [(''alpha'', sseServer ''alpha'' ''http://a''),
                 (''beta'', sseServer ''beta'' ''http://b''),
                 (''zeta'', (commandServer ''zeta'')\<lparr>connected := False\<rparr>)],
      tools = [(''alpha/echo'', toolEntry ''alpha'' echoTool),
               (''beta/echo'', toolEntry ''beta'' echoTool),
               (''zeta/ping'', toolEntry ''zeta'' (echoTool\<lparr>name := ''ping''\<rparr>))],
      resources = [], prompts = [], isInitialized = True, serverConfigs = [], sent = []\<rparr>"

text \<open>A connected command server with one request pending: id 7, promise 1.\<close>

definition ex_pending :: server where
  "ex_pending = (commandServer ''beta'')\<lparr>responseHandlers := [(7, 1)]\<rparr>"

text \<open>A reply to the request with id 7, and two \<^verbatim>\<open>tools/call\<close> requests as
  callServerMethod builds them at clock value 1000, with the reply to that id.\<close>

definition ex_reply :: rpc_message where
  "ex_reply = \<lparr>rpc_id = Some 7, rpc_error = None, rpc_result = Some noResult\<rparr>"

definition ex_requestA :: request where
  "ex_requestA =
     \<lparr>req_id = 1000, req_method = ''tools/call'', req_params = ToolCallParams ''echo'' ''a''\<rparr>"


definition ex_reply1000 :: rpc_message where
  "ex_reply1000 = \<lparr>rpc_id = Some 1000, rpc_error = None, rpc_result = Some noResult\<rparr>"

text \<open>The requests sent so far through the manager the integration layer holds.\<close>

definition managerSent :: "integration \<Rightarrow> (string \<times> string \<times> params) list" where
  "managerSent it = (case mcpManager it of None \<Rightarrow> [] | Some m \<Rightarrow> sent m)"

section \<open>More configurations\<close>

text \<open>Two remote servers. \<open>alpha\<close> lists the tool \<open>echo\<close> with a \<^verbatim>\<open>serverId\<close> property
  of its own, \<open>beta\<close>; \<open>beta\<close> lists the tool \<open>sum\<close> and no \<open>echo\<close>.\<close>

definition crossedTool :: tool where
  "crossedTool = echoTool\<lparr>listedServerId := Some ''beta''\<rparr>"

definition sumTool :: tool where
  "sumTool = echoTool\<lparr>name := ''sum''\<rparr>"

definition ex_config_pair :: "(string \<times> server_config) list" where
  "ex_config_pair = [(''alpha'', sseConfig ''http://a''), (''beta'', sseConfig ''http://b'')]"

definition ex_upstream_crossed :: upstream where
  "ex_upstream_crossed srv method ps =
     (if method = ''tools/list''
      then okReply (noResult\<lparr>res_tools := Some [if srv = ''alpha'' then crossedTool else sumTool]\<rparr>)
      else ex_upstream srv method ps)"

text \<open>Three remote servers in the order \<open>zeta\<close>, \<open>alpha\<close>, \<open>beta\<close>: \<open>zeta\<close> lists a tool
  named \<open>x/echo\<close>, \<open>alpha\<close> and \<open>beta\<close> list \<open>echo\<close>. And three in the order \<open>zeta\<close>,
  \<open>yota\<close>, \<open>x\<close>: \<open>zeta\<close> and \<open>yota\<close> list \<open>x/echo\<close>, the server \<open>x\<close> lists \<open>echo\<close>.\<close>

definition slashTool :: tool where
  "slashTool = echoTool\<lparr>name := ''x/echo''\<rparr>"

definition ex_config_slash :: "(string \<times> server_config) list" where
  "ex_config_slash =
     [(''zeta'', sseConfig ''http://z''), (''alpha'', sseConfig ''http://a''),
      (''beta'', sseConfig ''http://b'')]"

definition ex_config_exact :: "(string \<times> server_config) list" where
  "ex_config_exact =
     [(''zeta'', sseConfig ''http://z''), (''yota'', sseConfig ''http://y''),
      (''x'', sseConfig ''http://x'')]"

definition ex_upstream_slash :: upstream where
  "ex_upstream_slash srv method ps =
     (if method = ''tools/list''
      then okReply (noResult\<lparr>res_tools :=
             Some [if srv = ''zeta'' \<or> srv = ''yota'' then slashTool else echoTool]\<rparr>)
      else if method = ''resources/list'' then okReply (noResult\<lparr>res_resources := Some []\<rparr>)
      else ex_upstream srv method ps)"

text \<open>A remote server that answers every request with a JSON-RPC error object.\<close>

definition ex_upstream_rpc_error :: upstream where
  "ex_upstream_rpc_error srv method ps =
     Inr \<lparr>rpc_id = Some 1, rpc_error = Some ''Method not found'', rpc_result = None\<rparr>"

text \<open>One configured process server, \<open>delta\<close>, and what may happen to its server object:
  the \<^verbatim>\<open>initialize\<close> request of createCommandConnection (id 1, promise 1), a line
  from the process answering it, a timer, a second call.\<close>

definition ex_config_process :: "(string \<times> server_config) list" where
  "ex_config_process = [(''delta'', commandConfig ''npx'')]"




text \<open>The managers initialize leaves on these configurations.\<close>

definition ex_manager_crossed :: manager where
  "ex_manager_crossed = initialize ex_upstream_crossed (new_manager ex_config_pair)"

definition ex_manager_slash :: manager where
  "ex_manager_slash = initialize ex_upstream_slash (new_manager ex_config_slash)"

definition ex_manager_exact :: manager where
  "ex_manager_exact = initialize ex_upstream_slash (new_manager ex_config_exact)"

text \<open>The integration layers MCPIntegration.initialize leaves on them, and on the four
  configured servers of \<open>ex_config\<close>.\<close>

definition ex_integration_slash :: integration where
  "ex_integration_slash =
     fst (int_initialize ex_upstream_slash (Some ex_config_slash) new_integration)"

definition ex_integration_exact :: integration where
  "ex_integration_exact =
     fst (int_initialize ex_upstream_slash (Some ex_config_exact) new_integration)"

definition ex_integration_echo :: integration where
  "ex_integration_echo = fst (int_initialize ex_upstream (Some ex_config) new_integration)"

section \<open>Evaluating the model\<close>

lemmas ex_defs = ex_config_def ex_upstream_def sseConfig_def commandConfig_def okReply_def
  noResult_def echoTool_def readme_def

lemmas model_defs = connectToServer_def createSSEConnection_def createCommandConnection_def
  spawnedServer_def newCommandServer_def resourceEntry_def promptEntry_def
  makeSSERequest_def await_sendCommand_def callServerMethod_def initializeServerCapabilities_def
  storeTools_def storeResources_def storePrompts_def setTool_def setResource_def setPrompt_def
  toolKey_def toolEntry_def declaredCapabilities_def

lemma echoTool_listed [simp]:
  "listedServerId echoTool = None" "listedServerId (echoTool\<lparr>name := n\<rparr>) = None"
  by (simp_all add: echoTool_def)

section \<open>Tool dispatch\<close>

lemma firstBySuffix_first:
  "i < length ts \<Longrightarrow> endsWith (fst (ts ! i)) (''/'' @ n) \<Longrightarrow>
   (\<forall>j<i. \<not> endsWith (fst (ts ! j)) (''/'' @ n)) \<Longrightarrow> firstBySuffix ts n = Some (snd (ts ! i))"
proof (induction ts arbitrary: i)
  case Nil
  then show ?case by simp
next
  case (Cons p ts)
  obtain key v where p: "p = (key, v)" by (cases p)
  show ?case
  proof (cases i)
    case 0
    with Cons.prems p show ?thesis by simp
  next
    case (Suc k)
    from Cons.prems(3) Suc have "\<not> endsWith (fst ((p # ts) ! 0)) (''/'' @ n)" by blast
    hence nk: "\<not> endsWith key (''/'' @ n)" using p by simp
    have "\<forall>j<k. \<not> endsWith (fst (ts ! j)) (''/'' @ n)"
    proof (intro allI impI)
      fix j assume "j < k"
      hence "Suc j < i" using Suc by simp
      with Cons.prems(3) have "\<not> endsWith (fst ((p # ts) ! Suc j)) (''/'' @ n)" by blast
      thus "\<not> endsWith (fst (ts ! j)) (''/'' @ n)" by simp
    qed
    with Cons.IH[of k] Cons.prems Suc have "firstBySuffix ts n = Some (snd (ts ! k))" by simp
    with nk p Suc show ?thesis by simp
  qed
qed

lemma firstBySuffix_none:
  "(\<forall>key \<in> fst ` set ts. \<not> endsWith key (''/'' @ n)) \<Longrightarrow> firstBySuffix ts n = None"
  by (induction ts) auto

text \<open>How callTool resolves a name, on any manager. The entry stored under the name as a
  key, if there is one; otherwise the first entry, in the order of the registry, whose key
  ends with \<open>/\<close> followed by the name. With no such entry it fails with ToolNotFound and
  sends nothing. When the server registered under the entry's \<open>serverId\<close> is missing or not
  connected it fails with ServerUnavailable and sends nothing. Otherwise exactly one
  \<^verbatim>\<open>tools/call\<close> request, carrying the entry's tool name and the arguments, is sent
  through the server object registered under the entry's \<open>serverId\<close>, and callTool returns
  the \<open>result\<close> of the reply (or fails with the failure of the request).\<close>

lemma callTool_resolution:
  "(map_of (tools m) toolName = Some t \<longrightarrow> findTool m toolName = Some t)
 \<and> (map_of (tools m) toolName = None \<and> i < length (tools m)
      \<and> endsWith (fst (tools m ! i)) (''/'' @ toolName)
      \<and> (\<forall>j<i. \<not> endsWith (fst (tools m ! j)) (''/'' @ toolName))
    \<longrightarrow> findTool m toolName = Some (snd (tools m ! i)))
 \<and> (map_of (tools m) toolName = None
      \<and> (\<forall>key \<in> fst ` set (tools m). \<not> endsWith key (''/'' @ toolName))
    \<longrightarrow> callTool up m toolName args = (m, Inl (ToolNotFound toolName)))
 \<and> (findTool m toolName = Some t
      \<and> (\<forall>s. map_of (servers m) (serverId t) = Some s \<longrightarrow> \<not> connected s)
    \<longrightarrow> callTool up m toolName args = (m, Inl (ServerUnavailable (serverId t))))
 \<and> (findTool m toolName = Some t \<and> map_of (servers m) (serverId t) = Some server
      \<and> connected server \<and> (stype server = Command \<longrightarrow> process server)
    \<longrightarrow> callTool up m toolName args =
          (m\<lparr>sent := sent m @ [(sid server, ''tools/call'', ToolCallParams (name t) args)]\<rparr>,
           map_sum id rpc_result (up (sid server) ''tools/call'' (ToolCallParams (name t) args))))"
proof (intro conjI impI)
  show "findTool m toolName = Some t" if "map_of (tools m) toolName = Some t"
    using that by (simp add: findTool_def)
next
  assume "map_of (tools m) toolName = None \<and> i < length (tools m)
      \<and> endsWith (fst (tools m ! i)) (''/'' @ toolName)
      \<and> (\<forall>j<i. \<not> endsWith (fst (tools m ! j)) (''/'' @ toolName))"
  thus "findTool m toolName = Some (snd (tools m ! i))"
    using firstBySuffix_first[of i "tools m" toolName] by (simp add: findTool_def)
next
  assume "map_of (tools m) toolName = None
      \<and> (\<forall>key \<in> fst ` set (tools m). \<not> endsWith key (''/'' @ toolName))"
  thus "callTool up m toolName args = (m, Inl (ToolNotFound toolName))"
    using firstBySuffix_none[of "tools m" toolName] by (simp add: findTool_def callTool_def)
next
  assume "findTool m toolName = Some t
      \<and> (\<forall>s. map_of (servers m) (serverId t) = Some s \<longrightarrow> \<not> connected s)"
  thus "callTool up m toolName args = (m, Inl (ServerUnavailable (serverId t)))"
    by (simp add: callTool_def split: option.splits)
next
  assume a: "findTool m toolName = Some t \<and> map_of (servers m) (serverId t) = Some server
      \<and> connected server \<and> (stype server = Command \<longrightarrow> process server)"
  show "callTool up m toolName args =
          (m\<lparr>sent := sent m @ [(sid server, ''tools/call'', ToolCallParams (name t) args)]\<rparr>,
           map_sum id rpc_result (up (sid server) ''tools/call'' (ToolCallParams (name t) args)))"
  proof (cases "stype server")
    case SSE
    with a show ?thesis
      by (cases "up (sid server) ''tools/call'' (ToolCallParams (name t) args)")
         (simp_all add: callTool_def callServerMethod_def makeSSERequest_def)
  next
    case Command
    with a show ?thesis
      by (cases "up (sid server) ''tools/call'' (ToolCallParams (name t) args)")
         (simp_all add: callTool_def callServerMethod_def await_sendCommand_def)
  qed
qed


lemma ex_endsWith [simp]:
  "endsWith ''alpha/echo'' ''/echo''" "endsWith ''zeta/ping'' ''/ping''"
  "\<not> endsWith ''alpha/echo'' ''/ping''" "\<not> endsWith ''beta/echo'' ''/ping''"
  "\<not> endsWith ''alpha/echo'' ''/nope''" "\<not> endsWith ''beta/echo'' ''/nope''"
  "\<not> endsWith ''zeta/ping'' ''/nope''"
  by (simp_all add: endsWith_def suffix_to_prefix)

text \<open>The cases on the manager \<open>ex_manager\<close>: a qualified id, a bare name exposed by two
  servers, an unknown name, and a tool of a server that is not connected.\<close>

lemma callTool_resolution_example:
  "callTool ex_upstream ex_manager ''beta/echo'' ''{}'' =
     (ex_manager\<lparr>sent := [(''beta'', ''tools/call'', ToolCallParams ''echo'' ''{}'')]\<rparr>,
      Inr (Some (noResult\<lparr>res_content := ''hi''\<rparr>)))
   \<and> callTool ex_upstream ex_manager ''echo'' ''{}'' =
     (ex_manager\<lparr>sent := [(''alpha'', ''tools/call'', ToolCallParams ''echo'' ''{}'')]\<rparr>,
      Inr (Some (noResult\<lparr>res_content := ''hi''\<rparr>)))
   \<and> callTool ex_upstream ex_manager ''nope'' ''{}'' = (ex_manager, Inl (ToolNotFound ''nope''))
   \<and> callTool ex_upstream ex_manager ''ping'' ''{}'' =
       (ex_manager, Inl (ServerUnavailable ''zeta''))"
proof -
  let ?b = "toolEntry ''beta'' echoTool" and ?a = "toolEntry ''alpha'' echoTool"
  let ?z = "toolEntry ''zeta'' (echoTool\<lparr>name := ''ping''\<rparr>)"
  have exact: "map_of (tools ex_manager) ''beta/echo'' = Some ?b"
    by (simp add: ex_manager_def)
  have fb: "findTool ex_manager ''beta/echo'' = Some ?b"
    using callTool_resolution[of ex_manager "''beta/echo''" ?b] exact by blast
  have sb: "map_of (servers ex_manager) (serverId ?b) = Some (sseServer ''beta'' ''http://b'')"
    by (simp add: ex_manager_def toolEntry_def)
  have c1: "callTool ex_upstream ex_manager ''beta/echo'' ''{}'' =
     (ex_manager\<lparr>sent := [(''beta'', ''tools/call'', ToolCallParams ''echo'' ''{}'')]\<rparr>,
      Inr (Some (noResult\<lparr>res_content := ''hi''\<rparr>)))"
    using callTool_resolution[of ex_manager "''beta/echo''" ?b _ ex_upstream "''{}''"
            "sseServer ''beta'' ''http://b''"] fb sb
    by (simp add: sseServer_def toolEntry_def echoTool_def ex_upstream_def okReply_def
          ex_manager_def)
  have bare: "map_of (tools ex_manager) ''echo'' = None \<and> 0 < length (tools ex_manager)
      \<and> endsWith (fst (tools ex_manager ! 0)) (''/'' @ ''echo'')
      \<and> (\<forall>j<0. \<not> endsWith (fst (tools ex_manager ! j)) (''/'' @ ''echo''))"
    by (simp add: ex_manager_def)
  have fa: "findTool ex_manager ''echo'' = Some ?a"
    using callTool_resolution[of ex_manager "''echo''" _ 0] bare by (simp add: ex_manager_def)
  have sa: "map_of (servers ex_manager) (serverId ?a) = Some (sseServer ''alpha'' ''http://a'')"
    by (simp add: ex_manager_def toolEntry_def)
  have c2: "callTool ex_upstream ex_manager ''echo'' ''{}'' =
     (ex_manager\<lparr>sent := [(''alpha'', ''tools/call'', ToolCallParams ''echo'' ''{}'')]\<rparr>,
      Inr (Some (noResult\<lparr>res_content := ''hi''\<rparr>)))"
    using callTool_resolution[of ex_manager "''echo''" ?a _ ex_upstream "''{}''"
            "sseServer ''alpha'' ''http://a''"] fa sa
    by (simp add: sseServer_def toolEntry_def echoTool_def ex_upstream_def okReply_def
          ex_manager_def)
  have none: "map_of (tools ex_manager) ''nope'' = None
      \<and> (\<forall>key \<in> fst ` set (tools ex_manager). \<not> endsWith key (''/'' @ ''nope''))"
    by (simp add: ex_manager_def)
  have c3: "callTool ex_upstream ex_manager ''nope'' ''{}'' =
      (ex_manager, Inl (ToolNotFound ''nope''))"
    using callTool_resolution[of ex_manager "''nope''" _ _ ex_upstream "''{}''"] none by blast
  have ping: "map_of (tools ex_manager) ''ping'' = None \<and> 2 < length (tools ex_manager)
      \<and> endsWith (fst (tools ex_manager ! 2)) (''/'' @ ''ping'')
      \<and> (\<forall>j<2. \<not> endsWith (fst (tools ex_manager ! j)) (''/'' @ ''ping''))"
    by (simp add: ex_manager_def less_Suc_eq numeral_2_eq_2)
  have fz: "findTool ex_manager ''ping'' = Some ?z"
    using callTool_resolution[of ex_manager "''ping''" _ 2] ping by (simp add: ex_manager_def)
  have down: "\<forall>s. map_of (servers ex_manager) (serverId ?z) = Some s \<longrightarrow> \<not> connected s"
    by (simp add: ex_manager_def toolEntry_def)
  have c4: "callTool ex_upstream ex_manager ''ping'' ''{}'' =
      (ex_manager, Inl (ServerUnavailable ''zeta''))"
    using callTool_resolution[of ex_manager "''ping''" ?z _ ex_upstream "''{}''"] fz down
    by (simp add: toolEntry_def)
  from c1 c2 c3 c4 show ?thesis by blast
qed

lemma ex_manager_crossed_eval:
  "tools ex_manager_crossed
     = [(''alpha/echo'', toolEntry ''alpha'' crossedTool), (''beta/sum'', toolEntry ''beta'' sumTool)]"
  "servers ex_manager_crossed
     = [(''alpha'', sseServer ''alpha'' ''http://a''), (''beta'', sseServer ''beta'' ''http://b'')]"
  by (simp_all add: ex_manager_crossed_def ex_config_pair_def ex_upstream_crossed_def
        crossedTool_def sumTool_def initialize_def new_manager_def ex_defs model_defs
        sseServer_def)

text \<open>Claim C1 fails on the code. The remote servers \<open>alpha\<close> and \<open>beta\<close> are both
  connected by initialize; \<open>alpha\<close> lists its tool \<open>echo\<close> with a \<^verbatim>\<open>serverId\<close>
  property \<open>beta\<close>, and \<open>beta\<close> lists \<open>sum\<close> only. The registry holds the qualified id
  \<open>alpha/echo\<close>, but its entry names \<open>beta\<close> as its server, because the entry is built as
  \<^verbatim>\<open>{ serverId, ...tool }\<close>. callTool for \<open>alpha/echo\<close> sends the one
  \<^verbatim>\<open>tools/call\<close> request for \<open>echo\<close> through \<open>beta\<close>, not through \<open>alpha\<close>.\<close>

theorem callTool_crossed_dispatch:
  "map fst (tools ex_manager_crossed) = [''alpha/echo'', ''beta/sum'']
   \<and> map fst (servers ex_manager_crossed) = [''alpha'', ''beta'']
   \<and> map_option serverId (map_of (tools ex_manager_crossed) ''alpha/echo'') = Some ''beta''
   \<and> callTool ex_upstream_crossed ex_manager_crossed ''alpha/echo'' ''{}''
       = (ex_manager_crossed
            \<lparr>sent := sent ex_manager_crossed
               @ [(''beta'', ''tools/call'', ToolCallParams ''echo'' ''{}'')]\<rparr>,
          Inr (Some (noResult\<lparr>res_content := ''hi''\<rparr>)))"
  by (simp add: ex_manager_crossed_eval)
     (simp add: callTool_def findTool_def ex_manager_crossed_eval toolEntry_def crossedTool_def
        echoTool_def callServerMethod_def makeSSERequest_def sseServer_def
        ex_upstream_crossed_def ex_upstream_def okReply_def)

text \<open>A listed tool without a \<^verbatim>\<open>serverId\<close> of its own is entered under its owner.\<close>

lemma toolEntry_owner:
  "listedServerId t = None \<Longrightarrow> serverId (toolEntry srvId t) = srvId"
  by (simp add: toolEntry_def)

section \<open>Partial startup\<close>


lemma update_fresh: "k \<notin> fst ` set al \<Longrightarrow> AList.update k v al = al @ [(k, v)]"
  by (induction al) auto

lemma callServerMethod_keeps [simp]:
  "servers (fst (callServerMethod up m s method ps)) = servers m"
  "tools (fst (callServerMethod up m s method ps)) = tools m"
  "resources (fst (callServerMethod up m s method ps)) = resources m"
  "prompts (fst (callServerMethod up m s method ps)) = prompts m"
  "isInitialized (fst (callServerMethod up m s method ps)) = isInitialized m"
  "serverConfigs (fst (callServerMethod up m s method ps)) = serverConfigs m"
  by (simp_all add: callServerMethod_def makeSSERequest_def await_sendCommand_def
        split: server_type.splits)

lemma foldl_setTool_keeps [simp]:
  "servers (foldl (setTool srvId) m ts) = servers m"
  "resources (foldl (setTool srvId) m ts) = resources m"
  "prompts (foldl (setTool srvId) m ts) = prompts m"
  "isInitialized (foldl (setTool srvId) m ts) = isInitialized m"
  "serverConfigs (foldl (setTool srvId) m ts) = serverConfigs m"
  "sent (foldl (setTool srvId) m ts) = sent m"
  by (induction ts arbitrary: m) (simp_all add: setTool_def)

lemma foldl_setResource_keeps [simp]:
  "servers (foldl (setResource srvId) m ts) = servers m"
  "tools (foldl (setResource srvId) m ts) = tools m"
  "prompts (foldl (setResource srvId) m ts) = prompts m"
  "isInitialized (foldl (setResource srvId) m ts) = isInitialized m"
  "serverConfigs (foldl (setResource srvId) m ts) = serverConfigs m"
  "sent (foldl (setResource srvId) m ts) = sent m"
  by (induction ts arbitrary: m) (simp_all add: setResource_def)

lemma foldl_setPrompt_keeps [simp]:
  "servers (foldl (setPrompt srvId) m ts) = servers m"
  "tools (foldl (setPrompt srvId) m ts) = tools m"
  "resources (foldl (setPrompt srvId) m ts) = resources m"
  "isInitialized (foldl (setPrompt srvId) m ts) = isInitialized m"
  "serverConfigs (foldl (setPrompt srvId) m ts) = serverConfigs m"
  "sent (foldl (setPrompt srvId) m ts) = sent m"
  by (induction ts arbitrary: m) (simp_all add: setPrompt_def)

lemma storeTools_keeps [simp]:
  "servers (storeTools srvId m r) = servers m"
  "resources (storeTools srvId m r) = resources m"
  "prompts (storeTools srvId m r) = prompts m"
  "isInitialized (storeTools srvId m r) = isInitialized m"
  "serverConfigs (storeTools srvId m r) = serverConfigs m"
  "sent (storeTools srvId m r) = sent m"
  by (simp_all add: storeTools_def split: option.splits)

lemma storeResources_keeps [simp]:
  "servers (storeResources srvId m r) = servers m"
  "tools (storeResources srvId m r) = tools m"
  "prompts (storeResources srvId m r) = prompts m"
  "isInitialized (storeResources srvId m r) = isInitialized m"
  "serverConfigs (storeResources srvId m r) = serverConfigs m"
  "sent (storeResources srvId m r) = sent m"
  by (simp_all add: storeResources_def split: option.splits)

lemma storePrompts_keeps [simp]:
  "servers (storePrompts srvId m r) = servers m"
  "tools (storePrompts srvId m r) = tools m"
  "resources (storePrompts srvId m r) = resources m"
  "isInitialized (storePrompts srvId m r) = isInitialized m"
  "serverConfigs (storePrompts srvId m r) = serverConfigs m"
  "sent (storePrompts srvId m r) = sent m"
  by (simp_all add: storePrompts_def split: option.splits)

lemma initializeServerCapabilities_keeps [simp]:
  "servers (initializeServerCapabilities up m srvId s) = servers m"
  "isInitialized (initializeServerCapabilities up m srvId s) = isInitialized m"
  "serverConfigs (initializeServerCapabilities up m srvId s) = serverConfigs m"
proof -
  have k: "servers (fst (callServerMethod up m' s rq ps)) = servers m'
      \<and> isInitialized (fst (callServerMethod up m' s rq ps)) = isInitialized m'
      \<and> serverConfigs (fst (callServerMethod up m' s rq ps)) = serverConfigs m'"
    for m' rq ps by simp
  show "servers (initializeServerCapabilities up m srvId s) = servers m"
    unfolding initializeServerCapabilities_def
    using k by (auto split: prod.splits sum.splits dest!: arg_cong[where f=fst])
  show "isInitialized (initializeServerCapabilities up m srvId s) = isInitialized m"
    unfolding initializeServerCapabilities_def
    using k by (auto split: prod.splits sum.splits dest!: arg_cong[where f=fst])
  show "serverConfigs (initializeServerCapabilities up m srvId s) = serverConfigs m"
    unfolding initializeServerCapabilities_def
    using k by (auto split: prod.splits sum.splits dest!: arg_cong[where f=fst])
qed


lemma createCommandConnection_fails:
  "createCommandConnection up m srvId config =
     (m, Inl (CommandConnectionFailed (NotConnected srvId)))"
  by (simp add: createCommandConnection_def await_sendCommand_def spawnedServer_def
        newCommandServer_def)

lemma createSSEConnection_cases:
  "createSSEConnection up m srvId config =
     (m\<lparr>sent := sent m @ [(srvId, ''initialize'', InitializeParams)]\<rparr>,
      case up srvId ''initialize'' InitializeParams of
        Inl e \<Rightarrow> Inl (SSEConnectionFailed e)
      | Inr response \<Rightarrow>
          Inr \<lparr>sid = srvId, stype = SSE, url = cfg_url config,
               timeout = (if cfg_timeout config = 0 then 300 else cfg_timeout config),
               process = False, connected = True,
               capabilities = declaredCapabilities response, responseHandlers = []\<rparr>)"
  by (simp add: createSSEConnection_def makeSSERequest_def split: sum.splits)

lemma connectSucceeds_iff:
  "connectSucceeds up (srvId, config) \<longleftrightarrow>
     cfg_type config = ''sse'' \<and> (\<exists>r. up srvId ''initialize'' InitializeParams = Inr r)"
  by (cases "up srvId ''initialize'' InitializeParams")
     (simp_all add: connectSucceeds_def connectToServer_def createCommandConnection_fails
        createSSEConnection_cases)

lemma connectToServer_fails:
  "\<not> connectSucceeds up (srvId, config) \<Longrightarrow>
     servers (fst (connectToServer up m srvId config)) = servers m
   \<and> tools (fst (connectToServer up m srvId config)) = tools m
   \<and> resources (fst (connectToServer up m srvId config)) = resources m
   \<and> prompts (fst (connectToServer up m srvId config)) = prompts m
   \<and> snd (connectToServer up m srvId config) \<noteq> None"
  by (cases "up srvId ''initialize'' InitializeParams")
     (auto simp add: connectSucceeds_iff connectToServer_def createCommandConnection_fails
        createSSEConnection_cases)

lemma connectToServer_succeeds:
  "connectSucceeds up (srvId, config) \<Longrightarrow>
     \<exists>s. servers (fst (connectToServer up m srvId config)) = AList.update srvId s (servers m)
       \<and> connected s \<and> sid s = srvId \<and> stype s = SSE \<and> responseHandlers s = []
       \<and> snd (connectToServer up m srvId config) = None"
  by (cases "up srvId ''initialize'' InitializeParams")
     (auto simp add: connectSucceeds_iff connectToServer_def createSSEConnection_cases)

lemma connectToServer_keeps [simp]:
  "isInitialized (fst (connectToServer up m srvId config)) = isInitialized m"
  "serverConfigs (fst (connectToServer up m srvId config)) = serverConfigs m"
  by (cases "up srvId ''initialize'' InitializeParams";
      simp add: connectToServer_def createCommandConnection_fails createSSEConnection_cases)+

lemma connectAll_keeps [simp]:
  "isInitialized (connectAll up m cfgs) = isInitialized m"
  "serverConfigs (connectAll up m cfgs) = serverConfigs m"
  by (induction cfgs arbitrary: m) auto


lemma connectAll_servers:
  "distinct (map fst cfgs) \<Longrightarrow> fst ` set (servers m) \<inter> fst ` set cfgs = {} \<Longrightarrow>
   allConnected (servers m) \<Longrightarrow>
     map fst (servers (connectAll up m cfgs))
       = map fst (servers m) @ map fst (filter (connectSucceeds up) cfgs)
   \<and> allConnected (servers (connectAll up m cfgs))"
proof (induction cfgs arbitrary: m)
  case Nil
  then show ?case by simp
next
  case (Cons c cfgs)
  obtain srvId config where c: "c = (srvId, config)" by (cases c)
  let ?m = "fst (connectToServer up m srvId config)"
  have fresh: "srvId \<notin> fst ` set (servers m)" using Cons.prems(2) c by auto
  show ?case
  proof (cases "connectSucceeds up (srvId, config)")
    case False
    hence same: "servers ?m = servers m" using connectToServer_fails by blast
    have "fst ` set (servers ?m) \<inter> fst ` set cfgs = {}" using Cons.prems(2) same by auto
    with Cons.IH[of ?m] Cons.prems same c False show ?thesis by simp
  next
    case True
    then obtain s where s: "servers ?m = AList.update srvId s (servers m)"
      "connected s" "sid s = srvId"
      using connectToServer_succeeds by blast
    hence app: "servers ?m = servers m @ [(srvId, s)]" using fresh by (simp add: update_fresh)
    have d: "fst ` set (servers ?m) \<inter> fst ` set cfgs = {}"
      using Cons.prems(1,2) c app by auto
    have ac: "allConnected (servers ?m)"
      unfolding app using Cons.prems(3) s(2,3) by (simp add: allConnected_def)
    from Cons.IH[of ?m] Cons.prems(1) d ac app c True show ?thesis by simp
  qed
qed

text \<open>What the loop of initialize guarantees, for a configuration with distinct ids: it
  returns, with the manager initialized, and the servers map holds exactly the servers whose
  connectToServer did not throw, in configuration order, each marked connected. A server
  whose connect throws, whatever its place in the configuration, does not keep the ones
  after it from being connected. By \<open>connectSucceeds_iff\<close> the servers whose connect does
  not throw are the remote ones whose \<^verbatim>\<open>initialize\<close> request was answered.\<close>

lemma initialize_partial_startup:
  "distinct (map fst config) \<Longrightarrow>
     isInitialized (initialize up (new_manager config))
   \<and> map fst (servers (initialize up (new_manager config)))
       = map fst (filter (connectSucceeds up) config)
   \<and> allConnected (servers (initialize up (new_manager config)))
   \<and> length (servers (initialize up (new_manager config)))
       = length config - length (filter (\<lambda>c. \<not> connectSucceeds up c) config)"
proof -
  assume d: "distinct (map fst config)"
  let ?m = "new_manager config"
  have i: "initialize up ?m = (connectAll up ?m config)\<lparr>isInitialized := True\<rparr>"
    by (simp add: initialize_def new_manager_def)
  have "fst ` set (servers ?m) \<inter> fst ` set config = {}" "allConnected (servers ?m)"
    by (simp_all add: new_manager_def allConnected_def)
  with connectAll_servers[OF d, of ?m up]
  have k: "map fst (servers (connectAll up ?m config)) = map fst (filter (connectSucceeds up) config)"
    and a: "allConnected (servers (connectAll up ?m config))"
    by (simp_all add: new_manager_def)
  have "length (servers (connectAll up ?m config)) = length (filter (connectSucceeds up) config)"
    using arg_cong[OF k, of length] by simp
  moreover have "length (filter (connectSucceeds up) config)
      + length (filter (\<lambda>c. \<not> connectSucceeds up c) config) = length config"
    by (rule sum_length_filter_compl)
  ultimately have "length (servers (connectAll up ?m config))
      = length config - length (filter (\<lambda>c. \<not> connectSucceeds up c) config)" by linarith
  with i k a show ?thesis by simp
qed

lemma ex_connects:
  "filter (connectSucceeds ex_upstream) ex_config
     = [(''alpha'', sseConfig ''http://a''), (''beta'', sseConfig ''http://b'')]"
  "filter (\<lambda>c. \<not> connectSucceeds ex_upstream c) ex_config
     = [(''gamma'', sseConfig ''http://c''), (''delta'', commandConfig ''npx'')]"
  by (simp_all add: ex_config_def connectSucceeds_iff ex_upstream_def sseConfig_def
        commandConfig_def okReply_def)

text \<open>On the four configured servers: \<open>gamma\<close> fails its \<^verbatim>\<open>initialize\<close> request and
  \<open>delta\<close> fails in sendCommand; \<open>beta\<close>, configured after both, is connected.\<close>

lemma initialize_partial_startup_example:
  "distinct (map fst ex_config)
   \<and> isInitialized (initialize ex_upstream (new_manager ex_config))
   \<and> map fst (servers (initialize ex_upstream (new_manager ex_config))) = [''alpha'', ''beta'']
   \<and> allConnected (servers (initialize ex_upstream (new_manager ex_config)))
   \<and> length (servers (initialize ex_upstream (new_manager ex_config))) = 4 - 2"
proof -
  have d: "distinct (map fst ex_config)" by (simp add: ex_config_def)
  have n: "length ex_config = 4" by (simp add: ex_config_def)
  from initialize_partial_startup[OF d, of ex_upstream] d n show ?thesis
    by (simp add: ex_connects)
qed

lemma update_list_all:
  "list_all P al \<Longrightarrow> P (k, v) \<Longrightarrow> list_all P (AList.update k v al)"
  by (induction al) auto



text \<open>Claim C2 fails on the code. One process server \<open>delta\<close> is configured, and its
  process would answer \<^verbatim>\<open>initialize\<close>. createCommandConnection spawns it and calls
  sendCommand for \<^verbatim>\<open>initialize\<close> while \<^verbatim>\<open>connected\<close> is still false, so
  sendCommand rejects at once: nothing is written to the process, createCommandConnection
  throws, and after initialize no server is connected, where the claim has N - M = 1. In
  the other direction, a remote server that answers \<^verbatim>\<open>initialize\<close> with a JSON-RPC
  error object is stored as connected.\<close>

theorem initialize_process_server_never_connected:
  "ex_upstream ''delta'' ''initialize'' InitializeParams = okReply noResult
   \<and> createCommandConnection ex_upstream (new_manager ex_config_process) ''delta''
        (commandConfig ''npx'')
       = (new_manager ex_config_process, Inl (CommandConnectionFailed (NotConnected ''delta'')))
   \<and> servers (initialize ex_upstream (new_manager ex_config_process)) = []
   \<and> sent (initialize ex_upstream (new_manager ex_config_process)) = []
   \<and> isInitialized (initialize ex_upstream (new_manager ex_config_process))
   \<and> map (\<lambda>ks. (fst ks, connected (snd ks)))
        (servers (initialize ex_upstream_rpc_error
           (new_manager [(''alpha'', sseConfig ''http://a'')])))
       = [(''alpha'', True)]"
  by (simp add: createCommandConnection_fails)
     (simp add: initialize_def new_manager_def ex_config_process_def ex_upstream_rpc_error_def
        ex_defs model_defs)

section \<open>The process transport\<close>

subsection \<open>The server object of a process connection\<close>




subsection \<open>Process exit\<close>

text \<open>The \<^verbatim>\<open>exit\<close> handler on any server object: it marks the object not connected and
  emits \<^verbatim>\<open>server-disconnected\<close>; it does not touch the table. A call made afterwards
  is rejected at once.\<close>

lemma processExit_disconnects:
  "\<not> connected (fst (processExit s))
   \<and> snd (processExit s) = [Emit ''server-disconnected'']
   \<and> responseHandlers (fst (processExit s)) = responseHandlers s
   \<and> sendCommand (fst (processExit s)) p now message
        = (fst (processExit s), [Settle p (Rejected (NotConnected (sid s)))])"
  by (simp add: processExit_def sendCommand_def)



subsection \<open>Late responses\<close>

lemma snd_set_update: "snd ` set (AList.update k v al) \<subseteq> insert v (snd ` set al)"
  by (induction al) auto

lemma set_delete: "set (AList.delete k al) \<subseteq> set al"
  by (auto simp: AList.delete_eq)

lemma step_keeps_absent:
  assumes "p \<notin> snd ` set (responseHandlers s)" "\<not> sendsPromise p ev"
  shows "p \<notin> snd ` set (responseHandlers (fst (step s ev)))"
proof (cases ev)
  case (Incoming message)
  with assms(1) set_delete[of _ "responseHandlers s"] show ?thesis
    by (auto simp: handleJSONRPCMessage_def split: option.splits if_splits)
next
  case (TimerFires i q)
  with assms(1) set_delete[of i "responseHandlers s"] show ?thesis
    by (auto simp: commandTimeout_def)
next
  case ProcessExit
  with assms(1) show ?thesis by (simp add: processExit_def)
next
  case (SendCommand q now message)
  with assms(2) have "q \<noteq> p" by simp
  with SendCommand assms(1) snd_set_update[of _ q "responseHandlers s"] show ?thesis
    by (auto simp: sendCommand_def Let_def)
qed

lemma run_keeps_absent:
  "p \<notin> snd ` set (responseHandlers s) \<Longrightarrow> list_all (\<lambda>ev. \<not> sendsPromise p ev) evs \<Longrightarrow>
   p \<notin> snd ` set (responseHandlers (run s evs))"
proof (induction evs arbitrary: s)
  case Nil
  then show ?case by simp
next
  case (Cons ev evs)
  from Cons.prems have "p \<notin> snd ` set (responseHandlers (fst (step s ev)))"
    using step_keeps_absent by simp
  with Cons.IH[of "fst (step s ev)"] Cons.prems(2) show ?case by simp
qed

lemma response_settles_stored:
  "p \<in> set (settled (snd (handleJSONRPCMessage s message))) \<Longrightarrow>
   p \<in> snd ` set (responseHandlers s)"
  by (auto simp: handleJSONRPCMessage_def split: option.splits if_splits dest!: map_of_SomeD
        intro: rev_image_eqI)

lemma delete_removes_promise:
  assumes "list_all (\<lambda>(j, q). q = p \<longrightarrow> j = i) hs"
  shows "p \<notin> snd ` set (AList.delete i hs)"
  using assms by (auto simp: AList.delete_eq list_all_iff)

lemma response_without_entry:
  "map_of (responseHandlers s) i = None \<Longrightarrow> rpc_id late = Some i \<Longrightarrow>
   handleJSONRPCMessage s late = (s, [Emit ''server-message''])"
  by (simp add: handleJSONRPCMessage_def)

text \<open>Claim C5. Let the request with id \<open>i\<close> be pending for the promise \<open>p\<close>, stored under no
  other id. Let the call be settled, by a response carrying \<open>i\<close> (which settles \<open>p\<close>, once) or
  by its timer (which rejects \<open>p\<close>, once), and let \<open>s'\<close> be the server object after that. Then
  the table has no entry for \<open>i\<close>; a response carrying \<open>i\<close> that arrives now settles nothing
  and is only forwarded as \<^verbatim>\<open>server-message\<close>; the call's timer, firing now, does
  nothing; and after any further callbacks on the connection (responses, timers, exit,
  calls of sendCommand for other promises) no arriving message, whatever its id, settles
  \<open>p\<close> again.\<close>

theorem late_response_discarded:
  assumes pending: "map_of (responseHandlers s) i = Some p"
    and own: "list_all (\<lambda>(j, q). q = p \<longrightarrow> j = i) (responseHandlers s)"
    and settle: "s' = fst (handleJSONRPCMessage s reply) \<and> rpc_id reply = Some i \<and> i \<noteq> 0
                 \<or> s' = fst (commandTimeout s i p)"
    and late: "rpc_id late = Some i"
    and later: "list_all (\<lambda>ev. \<not> sendsPromise p ev) evs"
  shows "(rpc_id reply = Some i \<and> i \<noteq> 0
            \<longrightarrow> settled (snd (handleJSONRPCMessage s reply)) = [p])
       \<and> settled (snd (commandTimeout s i p)) = [p]
       \<and> map_of (responseHandlers s') i = None
       \<and> handleJSONRPCMessage s' late = (s', [Emit ''server-message''])
       \<and> commandTimeout s' i p = (s', [])
       \<and> p \<notin> set (settled (snd (handleJSONRPCMessage (run s' evs) anyMessage)))"
proof -
  have s': "responseHandlers s' = AList.delete i (responseHandlers s)"
    using settle pending by (auto simp: handleJSONRPCMessage_def commandTimeout_def)
  hence gone: "map_of (responseHandlers s') i = None" by (simp add: delete_conv')
  have "p \<notin> snd ` set (responseHandlers s')"
    unfolding s' using own by (rule delete_removes_promise)
  hence "p \<notin> snd ` set (responseHandlers (run s' evs))"
    using later by (rule run_keeps_absent)
  hence never: "p \<notin> set (settled (snd (handleJSONRPCMessage (run s' evs) anyMessage)))"
    using response_settles_stored by blast
  have once: "rpc_id reply = Some i \<and> i \<noteq> 0
      \<longrightarrow> settled (snd (handleJSONRPCMessage s reply)) = [p]"
    using pending by (simp add: handleJSONRPCMessage_def)
  have timer: "settled (snd (commandTimeout s i p)) = [p]"
    using pending by (simp add: commandTimeout_def)
  have idle: "commandTimeout s' i p = (s', [])"
    using gone by (simp add: commandTimeout_def)
  from once timer gone late never idle show ?thesis by (simp add: response_without_entry)
qed

text \<open>On \<open>ex_pending\<close>: the response to request 7 resolves promise 1; the same response
  arriving again is forwarded as an event; and after another call (promise 2, id 1000),
  its response and the exit of the process, a message with id 7 still settles nothing.\<close>

theorem late_response_discarded_witness:
  "map_of (responseHandlers ex_pending) 7 = Some 1
   \<and> settled (snd (handleJSONRPCMessage ex_pending ex_reply)) = [1]
   \<and> handleJSONRPCMessage (fst (handleJSONRPCMessage ex_pending ex_reply)) ex_reply
       = (fst (handleJSONRPCMessage ex_pending ex_reply), [Emit ''server-message''])
   \<and> 1 \<notin> set (settled (snd (handleJSONRPCMessage
         (run (fst (handleJSONRPCMessage ex_pending ex_reply))
            [SendCommand 2 1000 ex_requestA, Incoming ex_reply1000, ProcessExit])
         ex_reply)))"
proof -
  have pending: "map_of (responseHandlers ex_pending) 7 = Some 1"
    by (simp add: ex_pending_def commandServer_def)
  have own: "list_all (\<lambda>(j, q). q = 1 \<longrightarrow> j = 7) (responseHandlers ex_pending)"
    by (simp add: ex_pending_def commandServer_def)
  have settle: "fst (handleJSONRPCMessage ex_pending ex_reply)
        = fst (handleJSONRPCMessage ex_pending ex_reply) \<and> rpc_id ex_reply = Some 7 \<and> (7::nat) \<noteq> 0
      \<or> fst (handleJSONRPCMessage ex_pending ex_reply) = fst (commandTimeout ex_pending 7 1)"
    by (simp add: ex_reply_def)
  have late: "rpc_id ex_reply = Some 7" by (simp add: ex_reply_def)
  have later: "list_all (\<lambda>ev. \<not> sendsPromise 1 ev)
      [SendCommand 2 1000 ex_requestA, Incoming ex_reply1000, ProcessExit]"
    by simp
  from late_response_discarded[OF pending own settle late later, of ex_reply] pending late
  show ?thesis by simp
qed

subsection \<open>Request ids\<close>



text \<open>The store in sendCommand itself does not look at the key. On a server object that is
  marked connected, which the code never produces, two calls of callServerMethod at the same
  clock value share the id, and the second entry replaces the first.\<close>

lemma sendCommand_same_clock_on_connected_object:
  "responseHandlers (fst (callServerMethod_command (commandServer ''beta'') 1 1000
       ''tools/call'' (ToolCallParams ''echo'' ''a''))) = [(1000, 1)]
   \<and> responseHandlers
       (fst (callServerMethod_command
          (fst (callServerMethod_command (commandServer ''beta'') 1 1000
             ''tools/call'' (ToolCallParams ''echo'' ''a'')))
          2 1000 ''tools/call'' (ToolCallParams ''echo'' ''b''))) = [(1000, 2)]"
  by (simp add: callServerMethod_command_def sendCommand_def commandServer_def)

section \<open>Shutdown\<close>

text \<open>Claim C4, as stated, fails. \<open>beta/echo\<close> is in the registry of \<open>ex_manager\<close>; after
  shutdown, callTool for it fails with ToolNotFound, not with ServerUnavailable.\<close>

theorem callTool_after_shutdown_counterexample:
  "map_of (tools ex_manager) ''beta/echo'' = Some (toolEntry ''beta'' echoTool)
   \<and> snd (callTool ex_upstream (shutdown ex_manager) ''beta/echo'' ''{}'')
       = Inl (ToolNotFound ''beta/echo'')
   \<and> snd (callTool ex_upstream (shutdown ex_manager) ''beta/echo'' ''{}'')
       \<noteq> Inl (ServerUnavailable ''beta'')"
  by (simp add: ex_manager_def shutdown_def callTool_def findTool_def)

text \<open>Claim C4, amended. shutdown clears the tools registry together with the servers map,
  so after it every callTool, for a name that was in the registry or not, fails with
  ToolNotFound; it fails at once: nothing is sent and the manager is left as it was.\<close>

theorem callTool_after_shutdown:
  "callTool up (shutdown m) toolName args = (shutdown m, Inl (ToolNotFound toolName))
   \<and> servers (shutdown m) = [] \<and> tools (shutdown m) = []
   \<and> sent (fst (callTool up (shutdown m) toolName args)) = sent m"
  by (simp add: shutdown_def callTool_def findTool_def)


section \<open>Discovery\<close>



lemma foldl_setTool_tools:
  "tools (foldl (setTool srvId) m ts)
     = foldl (\<lambda>al t. AList.update (toolKey srvId (name t)) (toolEntry srvId t) al) (tools m) ts"
  by (induction ts arbitrary: m) (simp_all add: setTool_def)

lemma foldl_setResource_resources:
  "resources (foldl (setResource srvId) m rs)
     = foldl (\<lambda>al r. AList.update (toolKey srvId (uri r)) (resourceEntry srvId r) al)
         (resources m) rs"
  by (induction rs arbitrary: m) (simp_all add: setResource_def)

lemma foldl_setPrompt_prompts:
  "prompts (foldl (setPrompt srvId) m ps)
     = foldl (\<lambda>al p. AList.update (toolKey srvId (prompt_name p)) (promptEntry srvId p) al)
         (prompts m) ps"
  by (induction ps arbitrary: m) (simp_all add: setPrompt_def)

text \<open>What a block stores depends on the registry it writes to only.\<close>

lemma tools_storeTools:
  "tools (storeTools srvId m t)
     = (case rpc_result t of
          None \<Rightarrow> tools m
        | Some r \<Rightarrow>
            (case res_tools r of
               None \<Rightarrow> tools m
             | Some ts \<Rightarrow>
                 foldl (\<lambda>al t. AList.update (toolKey srvId (name t)) (toolEntry srvId t) al)
                   (tools m) ts))"
  by (simp add: storeTools_def foldl_setTool_tools split: option.splits)

lemma resources_storeResources:
  "resources (storeResources srvId m t)
     = (case rpc_result t of
          None \<Rightarrow> resources m
        | Some r \<Rightarrow>
            (case res_resources r of
               None \<Rightarrow> resources m
             | Some rs \<Rightarrow>
                 foldl (\<lambda>al r. AList.update (toolKey srvId (uri r)) (resourceEntry srvId r) al)
                   (resources m) rs))"
  by (simp add: storeResources_def foldl_setResource_resources split: option.splits)

lemma prompts_storePrompts:
  "prompts (storePrompts srvId m t)
     = (case rpc_result t of
          None \<Rightarrow> prompts m
        | Some r \<Rightarrow>
            (case res_prompts r of
               None \<Rightarrow> prompts m
             | Some ps \<Rightarrow>
                 foldl (\<lambda>al p. AList.update (toolKey srvId (prompt_name p))
                     (promptEntry srvId p) al) (prompts m) ps))"
  by (simp add: storePrompts_def foldl_setPrompt_prompts split: option.splits)




section \<open>Registries during a discovery pass\<close>

lemma ex_initialize:
  "initialize ex_upstream (new_manager ex_config) =
     \<lparr>servers = [(''alpha'', sseServer ''alpha'' ''http://a''),
                 (''beta'', sseServer ''beta'' ''http://b'')],
      tools = [(''alpha/echo'', toolEntry ''alpha'' echoTool),
               (''beta/echo'', toolEntry ''beta'' echoTool)],
      resources = [(''alpha/file:///readme'', resourceEntry ''alpha'' readme),
                   (''beta/file:///readme'', resourceEntry ''beta'' readme)],
      prompts = [], isInitialized = True, serverConfigs = ex_config,
      sent = [(''alpha'', ''initialize'', InitializeParams),
              (''alpha'', ''tools/list'', EmptyParams),
              (''alpha'', ''resources/list'', EmptyParams),
              (''alpha'', ''prompts/list'', EmptyParams),
              (''gamma'', ''initialize'', InitializeParams),
              (''beta'', ''initialize'', InitializeParams),
              (''beta'', ''tools/list'', EmptyParams),
              (''beta'', ''resources/list'', EmptyParams),
              (''beta'', ''prompts/list'', EmptyParams)]\<rparr>"
  by (simp add: initialize_def new_manager_def ex_defs model_defs sseServer_def)

text \<open>Claim C8, as stated, fails. While initialize awaits the connect of the second
  configured server, a reader of getAvailableTools finds \<open>alpha/echo\<close> alone: neither the
  empty catalog from before the pass nor the catalog \<open>alpha/echo\<close>, \<open>beta/echo\<close> the pass
  ends with.\<close>

theorem registry_counterexample:
  "getAvailableTools (new_manager ex_config) = []
   \<and> map fst (getAvailableTools (initializeProgress ex_upstream (new_manager ex_config) 1))
       = [''alpha/echo'']
   \<and> map fst (getAvailableTools (initialize ex_upstream (new_manager ex_config)))
       = [''alpha/echo'', ''beta/echo'']"
  by (simp add: ex_initialize getAvailableTools_def)
     (simp add: initializeProgress_def new_manager_def ex_defs model_defs)

lemma keys_update_prefix: "prefix (map fst al) (map fst (AList.update k v al))"
  by (induction al) auto

lemma keys_foldl_update_prefix:
  "prefix (map fst al) (map fst (foldl (\<lambda>al x. AList.update (f x) (g x) al) al xs))"
proof (induction xs arbitrary: al)
  case Nil
  then show ?case by simp
next
  case (Cons x xs)
  have "prefix (map fst al) (map fst (AList.update (f x) (g x) al))"
    by (rule keys_update_prefix)
  also have "prefix \<dots> (map fst (foldl (\<lambda>al x. AList.update (f x) (g x) al)
      (AList.update (f x) (g x) al) xs))"
    by (rule Cons.IH)
  finally show ?case by simp
qed

lemma registriesExtend_refl [simp]: "registriesExtend m m"
  by (simp add: registriesExtend_def)

lemma registriesExtend_trans:
  "registriesExtend a b \<Longrightarrow> registriesExtend b c \<Longrightarrow> registriesExtend a c"
  unfolding registriesExtend_def by (meson prefix_order.trans)

lemma registriesExtend_same:
  "tools m' = tools m \<Longrightarrow> resources m' = resources m \<Longrightarrow> prompts m' = prompts m \<Longrightarrow>
   registriesExtend m m'"
  by (simp add: registriesExtend_def)

lemma registriesExtend_storeTools: "registriesExtend m (storeTools srvId m t)"
  by (simp add: registriesExtend_def tools_storeTools keys_foldl_update_prefix
        split: option.splits)

lemma registriesExtend_storeResources: "registriesExtend m (storeResources srvId m t)"
  by (simp add: registriesExtend_def resources_storeResources keys_foldl_update_prefix
        split: option.splits)

lemma registriesExtend_storePrompts: "registriesExtend m (storePrompts srvId m t)"
  by (simp add: registriesExtend_def prompts_storePrompts keys_foldl_update_prefix
        split: option.splits)

lemma registriesExtend_call:
  "registriesExtend m (fst (callServerMethod up m s method ps))"
  by (simp add: registriesExtend_same)

lemma registriesExtend_capabilities:
  "registriesExtend m (initializeServerCapabilities up m srvId s)"
proof -
  obtain m1 r1 where c1: "callServerMethod up m s ''tools/list'' EmptyParams = (m1, r1)"
    by (cases "callServerMethod up m s ''tools/list'' EmptyParams")
  have e1: "registriesExtend m m1" using registriesExtend_call[of m up s "''tools/list''" EmptyParams] c1 by simp
  show ?thesis
  proof (cases r1)
    case (Inl e)
    with c1 e1 show ?thesis by (simp add: initializeServerCapabilities_def)
  next
    case (Inr t)
    let ?m1 = "storeTools srvId m1 t"
    obtain m2 r2 where c2: "callServerMethod up ?m1 s ''resources/list'' EmptyParams = (m2, r2)"
      by (cases "callServerMethod up ?m1 s ''resources/list'' EmptyParams")
    have e2: "registriesExtend m m2"
      using registriesExtend_call[of ?m1 up s "''resources/list''" EmptyParams] c2
        registriesExtend_storeTools[of m1 srvId t] e1
      by (auto intro: registriesExtend_trans)
    show ?thesis
    proof (cases r2)
      case (Inl e)
      with c1 c2 Inr e2 show ?thesis by (simp add: initializeServerCapabilities_def)
    next
      case r: (Inr r)
      let ?m2 = "storeResources srvId m2 r"
      obtain m3 r3 where c3: "callServerMethod up ?m2 s ''prompts/list'' EmptyParams = (m3, r3)"
        by (cases "callServerMethod up ?m2 s ''prompts/list'' EmptyParams")
      have e3: "registriesExtend m m3"
        using registriesExtend_call[of ?m2 up s "''prompts/list''" EmptyParams] c3
          registriesExtend_storeResources[of m2 srvId r] e2
        by (auto intro: registriesExtend_trans)
      show ?thesis
      proof (cases r3)
        case (Inl e)
        with c1 c2 c3 Inr r e3 show ?thesis by (simp add: initializeServerCapabilities_def)
      next
        case p: (Inr p)
        have "registriesExtend m (storePrompts srvId m3 p)"
          using e3 registriesExtend_storePrompts[of m3 srvId p]
          by (rule registriesExtend_trans)
        with c1 c2 c3 Inr r p show ?thesis by (simp add: initializeServerCapabilities_def)
      qed
    qed
  qed
qed

lemma registriesExtend_connect:
  "registriesExtend m (fst (connectToServer up m srvId config))"
proof (cases "connectSucceeds up (srvId, config)")
  case False
  then show ?thesis using connectToServer_fails[of up srvId config m]
    by (simp add: registriesExtend_same)
next
  case True
  then obtain r where r: "cfg_type config = ''sse''"
      "up srvId ''initialize'' InitializeParams = Inr r"
    by (auto simp: connectSucceeds_iff)
  then obtain m' s where
    c: "fst (connectToServer up m srvId config) = initializeServerCapabilities up m' srvId s"
    and m': "tools m' = tools m" "resources m' = resources m" "prompts m' = prompts m"
    by (simp add: connectToServer_def createSSEConnection_cases)
  have "registriesExtend m m'" using m' by (rule registriesExtend_same)
  thus ?thesis unfolding c using registriesExtend_capabilities
    by (rule registriesExtend_trans)
qed

lemma registriesExtend_connectAll: "registriesExtend m (connectAll up m cfgs)"
proof (induction cfgs arbitrary: m)
  case Nil
  then show ?case by simp
next
  case (Cons c cfgs)
  obtain srvId config where c: "c = (srvId, config)" by (cases c)
  have "registriesExtend m (fst (connectToServer up m srvId config))"
    by (rule registriesExtend_connect)
  thus ?case unfolding c using Cons.IH by (auto intro: registriesExtend_trans)
qed

lemma connectAll_append:
  "connectAll up m (xs @ ys) = connectAll up (connectAll up m xs) ys"
  by (induction xs arbitrary: m) auto

text \<open>Claim C8, amended. The registries are not rebuilt by replacement. A discovery pass
  inserts into the live registries, one \<^verbatim>\<open>set\<close> per listed entry, as each list reply
  arrives. A reader that runs while initialize awaits the connect of a server finds the
  entries stored for the servers handled so far: in each registry its keys extend, in order,
  those from before the pass, and the keys the pass ends with extend them.\<close>

theorem registry_grows_in_place:
  assumes "\<not> isInitialized m"
  shows "registriesExtend m (initializeProgress up m k)
       \<and> registriesExtend (initializeProgress up m k) (initialize up m)"
proof -
  let ?cs = "serverConfigs m"
  have "connectAll up m ?cs = connectAll up (connectAll up m (take k ?cs)) (drop k ?cs)"
    using connectAll_append[of up m "take k ?cs" "drop k ?cs"] by simp
  hence "registriesExtend (initializeProgress up m k) (connectAll up m ?cs)"
    using registriesExtend_connectAll[of "connectAll up m (take k ?cs)" up "drop k ?cs"]
    by (simp add: initializeProgress_def)
  hence "registriesExtend (initializeProgress up m k) (initialize up m)"
    using assms by (simp add: initialize_def registriesExtend_def)
  moreover have "registriesExtend m (initializeProgress up m k)"
    unfolding initializeProgress_def by (rule registriesExtend_connectAll)
  ultimately show ?thesis by simp
qed

text \<open>On the four configured servers, for the reader that runs while \<open>gamma\<close>'s connect
  is awaited.\<close>

theorem registry_grows_in_place_witness:
  "\<not> isInitialized (new_manager ex_config)
   \<and> registriesExtend (new_manager ex_config)
        (initializeProgress ex_upstream (new_manager ex_config) 1)
   \<and> registriesExtend (initializeProgress ex_upstream (new_manager ex_config) 1)
        (initialize ex_upstream (new_manager ex_config))"
proof -
  have h: "\<not> isInitialized (new_manager ex_config)" by (simp add: new_manager_def)
  from registry_grows_in_place[OF h, of ex_upstream 1] h show ?thesis by simp
qed


section \<open>Registry round trip and refresh\<close>

text \<open>The first half of claim C9 holds: a \<open>tools/list\<close> reply listing K tools with distinct
  names, stored into a registry that has none of their keys, appends exactly K entries, keyed
  \<open>serverId/name\<close>, in the order of the listing.\<close>

lemma discovery_stores_each_tool:
  "distinct (map name ts) \<Longrightarrow>
   list_all (\<lambda>t. toolKey srvId (name t) \<notin> fst ` set (tools m)) ts \<Longrightarrow>
   tools (foldl (setTool srvId) m ts)
     = tools m @ map (\<lambda>t. (toolKey srvId (name t), toolEntry srvId t)) ts"
proof (induction ts arbitrary: m)
  case Nil
  then show ?case by simp
next
  case (Cons t ts)
  let ?m = "setTool srvId m t"
  have fresh: "toolKey srvId (name t) \<notin> fst ` set (tools m)" using Cons.prems(2) by simp
  hence tm: "tools ?m = tools m @ [(toolKey srvId (name t), toolEntry srvId t)]"
    by (simp add: setTool_def update_fresh)
  have "list_all (\<lambda>u. toolKey srvId (name u) \<notin> fst ` set (tools ?m)) ts"
    unfolding list_all_iff
  proof
    fix u assume u: "u \<in> set ts"
    have "name t \<notin> name ` set ts" using Cons.prems(1) by simp
    with u have "name u \<noteq> name t" by (metis imageI)
    hence "toolKey srvId (name u) \<noteq> toolKey srvId (name t)" by (simp add: toolKey_def)
    moreover have "toolKey srvId (name u) \<notin> fst ` set (tools m)"
      using Cons.prems(2) u by (simp add: list_all_iff)
    ultimately show "toolKey srvId (name u) \<notin> fst ` set (tools ?m)" by (simp add: tm)
  qed
  with Cons.IH[of ?m] Cons.prems(1) tm show ?case by simp
qed

lemma refresh_when_initialized:
  "int_isInitialized it \<Longrightarrow> mcpManager it = Some m \<Longrightarrow>
   refresh up configFile it = (it\<lparr>mcpManager := Some (shutdown m)\<rparr>, True)"
  by (simp add: refresh_def int_initialize_def)

text \<open>Claim C9 fails on the code in its second half. The integration layer is initialized
  on the four configured servers; the manager's tools registry holds \<open>alpha/echo\<close> and
  \<open>beta/echo\<close>. The \<^verbatim>\<open>mcp-refresh\<close> handler, against the same upstream, returns
  \<^verbatim>\<open>true\<close> and leaves the registry empty: after the manager's shutdown, the
  integration's initialize returns at once, because its own \<^verbatim>\<open>isInitialized\<close> is still
  true.\<close>

theorem refresh_empties_registry:
  "map fst (managerTools (fst (int_initialize ex_upstream (Some ex_config) new_integration)))
     = [''alpha/echo'', ''beta/echo'']
   \<and> snd (refresh ex_upstream (Some ex_config)
        (fst (int_initialize ex_upstream (Some ex_config) new_integration))) = True
   \<and> managerTools (fst (refresh ex_upstream (Some ex_config)
        (fst (int_initialize ex_upstream (Some ex_config) new_integration)))) = []"
  by (simp add: int_initialize_def new_integration_def ex_initialize registerTools_def
        managerTools_def refresh_def shutdown_def Let_def)


section \<open>Invariants of the registry\<close>

lemma endsWith_toolKey: "endsWith (toolKey srvId n) (''/'' @ n)"
  by (simp add: endsWith_def toolKey_def suffix_def)

lemma setTool_nameKeyed: "nameKeyed (tools m) \<Longrightarrow> nameKeyed (tools (setTool srvId m t))"
proof -
  assume k: "nameKeyed (tools m)"
  have "endsWith (toolKey srvId (name t)) (''/'' @ name (toolEntry srvId t))"
    using endsWith_toolKey[of srvId "name t"] by (simp add: toolEntry_def)
  thus ?thesis using k unfolding nameKeyed_def setTool_def
    by (simp add: update_list_all)
qed

lemma foldl_setTool_qualified:
  "nameKeyed (tools m) \<Longrightarrow> nameKeyed (tools (foldl (setTool srvId) m ts))"
  by (induction ts arbitrary: m) (simp_all add: setTool_nameKeyed)

lemma foldl_setTool_distinct:
  "distinct (map fst (tools m)) \<Longrightarrow> distinct (map fst (tools (foldl (setTool srvId) m ts)))"
  by (induction ts arbitrary: m) (simp_all add: setTool_def distinct_update)

lemma storeTools_invariant:
  "nameKeyed (tools m) \<and> distinct (map fst (tools m)) \<Longrightarrow>
   nameKeyed (tools (storeTools srvId m t)) \<and> distinct (map fst (tools (storeTools srvId m t)))"
  by (simp add: storeTools_def foldl_setTool_qualified foldl_setTool_distinct
        split: option.splits)

lemma capabilities_invariant:
  assumes "nameKeyed (tools m) \<and> distinct (map fst (tools m))"
  shows "nameKeyed (tools (initializeServerCapabilities up m srvId s))
       \<and> distinct (map fst (tools (initializeServerCapabilities up m srvId s)))"
proof -
  let ?P = "\<lambda>m. nameKeyed (tools m) \<and> distinct (map fst (tools m))"
  have call: "?P (fst (callServerMethod up m' s rq ps))" if "?P m'" for m' rq ps
    using that by simp
  obtain m1 r1 where c1: "callServerMethod up m s ''tools/list'' EmptyParams = (m1, r1)"
    by (cases "callServerMethod up m s ''tools/list'' EmptyParams")
  have p1: "?P m1" using call[OF assms, of "''tools/list''" EmptyParams] c1 by simp
  show ?thesis
  proof (cases r1)
    case (Inl e)
    with c1 p1 show ?thesis by (simp add: initializeServerCapabilities_def)
  next
    case (Inr t)
    let ?m1 = "storeTools srvId m1 t"
    have q1: "?P ?m1" using p1 by (rule storeTools_invariant)
    obtain m2 r2 where c2: "callServerMethod up ?m1 s ''resources/list'' EmptyParams = (m2, r2)"
      by (cases "callServerMethod up ?m1 s ''resources/list'' EmptyParams")
    have p2: "?P m2" using call[OF q1, of "''resources/list''" EmptyParams] c2 by simp
    show ?thesis
    proof (cases r2)
      case (Inl e)
      with c1 c2 Inr p2 show ?thesis by (simp add: initializeServerCapabilities_def)
    next
      case r: (Inr r)
      let ?m2 = "storeResources srvId m2 r"
      have q2: "?P ?m2" using p2 by simp
      obtain m3 r3 where c3: "callServerMethod up ?m2 s ''prompts/list'' EmptyParams = (m3, r3)"
        by (cases "callServerMethod up ?m2 s ''prompts/list'' EmptyParams")
      have p3: "?P m3" using call[OF q2, of "''prompts/list''" EmptyParams] c3 by simp
      show ?thesis
      proof (cases r3)
        case (Inl e)
        with c1 c2 c3 Inr r p3 show ?thesis by (simp add: initializeServerCapabilities_def)
      next
        case p: (Inr p)
        with c1 c2 c3 Inr r p3 show ?thesis by (simp add: initializeServerCapabilities_def)
      qed
    qed
  qed
qed

lemma connectToServer_invariant:
  assumes "nameKeyed (tools m) \<and> distinct (map fst (tools m))"
  shows "nameKeyed (tools (fst (connectToServer up m srvId config)))
       \<and> distinct (map fst (tools (fst (connectToServer up m srvId config))))"
proof (cases "connectSucceeds up (srvId, config)")
  case False
  then show ?thesis using connectToServer_fails[of up srvId config m] assms by simp
next
  case True
  then obtain r where r: "cfg_type config = ''sse''"
      "up srvId ''initialize'' InitializeParams = Inr r"
    by (auto simp: connectSucceeds_iff)
  then obtain m' s where
    c: "fst (connectToServer up m srvId config) = initializeServerCapabilities up m' srvId s"
    and m': "tools m' = tools m"
    by (simp add: connectToServer_def createSSEConnection_cases)
  show ?thesis unfolding c using assms m' by (intro capabilities_invariant) simp
qed

lemma connectAll_invariant:
  "nameKeyed (tools m) \<and> distinct (map fst (tools m)) \<Longrightarrow>
   nameKeyed (tools (connectAll up m cfgs)) \<and> distinct (map fst (tools (connectAll up m cfgs)))"
proof (induction cfgs arbitrary: m)
  case Nil
  then show ?case by simp
next
  case (Cons c cfgs)
  obtain srvId config where c: "c = (srvId, config)" by (cases c)
  from Cons.prems have "nameKeyed (tools (fst (connectToServer up m srvId config)))
      \<and> distinct (map fst (tools (fst (connectToServer up m srvId config))))"
    by (rule connectToServer_invariant)
  thus ?case unfolding c using Cons.IH by simp
qed

text \<open>After initialize on a new manager, the tools registry has one entry per key and every
  key is \<open>owner/name\<close>: it ends with \<open>/\<close> and the name of its entry.\<close>

lemma initialize_registry_invariant:
  "nameKeyed (tools (initialize up (new_manager config)))
   \<and> distinct (map fst (tools (initialize up (new_manager config))))"
proof -
  have "nameKeyed (tools (new_manager config))
      \<and> distinct (map fst (tools (new_manager config)))"
    by (simp add: new_manager_def nameKeyed_def)
  hence "nameKeyed (tools (connectAll up (new_manager config) config))
      \<and> distinct (map fst (tools (connectAll up (new_manager config) config)))"
    by (rule connectAll_invariant)
  thus ?thesis by (simp add: initialize_def new_manager_def)
qed


section \<open>sendCommand and the reply\<close>

text \<open>The two views of sendCommand agree. On a server without process or not connected the
  promise is rejected at once and nothing is written. Otherwise one request line is written
  under the request's id, and the promise is settled by the first of: a reply with that id
  and no error (resolved with the reply), a reply with that id and an error (rejected with
  its message), the timer (rejected with the timeout).\<close>

lemma sendCommand_settles:
  "(\<not> process s \<or> \<not> connected s \<longrightarrow>
      sendCommand s p now message = (s, [Settle p (Rejected (NotConnected (sid s)))]))
   \<and> (process s \<and> connected s \<and> req_id message = i \<and> i \<noteq> 0 \<and> rpc_id reply = Some i \<longrightarrow>
        snd (sendCommand s p now message) = [Write i (req_method message) (req_params message)]
      \<and> snd (handleJSONRPCMessage (fst (sendCommand s p now message)) reply)
          = [Settle p (case rpc_error reply of
                         Some msg \<Rightarrow> Rejected (RPCError (if msg = [] then ''Unknown RPC error''
                                                           else msg))
                       | None \<Rightarrow> Resolved reply)]
      \<and> snd (commandTimeout (fst (sendCommand s p now message)) i p)
          = [Settle p (Rejected (CommandTimeout (timeout s)))])"
  by (simp add: sendCommand_def handleJSONRPCMessage_def commandTimeout_def update_conv')


section \<open>The flattened registry of the integration layer\<close>

lemma foldl_setAgentTool_skip:
  "list_all (\<lambda>kt. name (snd kt) \<noteq> n) kts \<Longrightarrow>
   map_of (foldl setAgentTool reg kts) n = map_of reg n"
  by (induction kts arbitrary: reg) (auto simp add: setAgentTool_def update_conv')

lemma foldl_setAgentTool_distinct:
  "distinct (map fst reg) \<Longrightarrow> distinct (map fst (foldl setAgentTool reg kts))"
  by (induction kts arbitrary: reg) (simp_all add: setAgentTool_def distinct_update)

lemma foldl_setAgentTool_last:
  assumes "j < length kts" "name (snd (kts ! j)) = n"
    and "\<forall>l. j < l \<and> l < length kts \<longrightarrow> name (snd (kts ! l)) \<noteq> n"
  shows "map_of (foldl setAgentTool reg kts) n = Some (agentOf (kts ! j))"
proof -
  have split: "kts = take j kts @ kts ! j # drop (Suc j) kts"
    using assms(1) by (rule id_take_nth_drop)
  have rest: "list_all (\<lambda>kt. name (snd kt) \<noteq> n) (drop (Suc j) kts)"
    unfolding list_all_length
  proof (intro allI impI)
    fix l assume "l < length (drop (Suc j) kts)"
    hence "j < Suc j + l \<and> Suc j + l < length kts" by auto
    with assms(3) have "name (snd (kts ! (Suc j + l))) \<noteq> n" by blast
    thus "name (snd (drop (Suc j) kts ! l)) \<noteq> n" using assms(1) by simp
  qed
  have "foldl setAgentTool reg kts
      = foldl setAgentTool (setAgentTool (foldl setAgentTool reg (take j kts)) (kts ! j))
          (drop (Suc j) kts)"
    by (subst split) simp
  hence "map_of (foldl setAgentTool reg kts) n
      = map_of (setAgentTool (foldl setAgentTool reg (take j kts)) (kts ! j)) n"
    using foldl_setAgentTool_skip[OF rest] by simp
  thus ?thesis using assms(2) by (simp add: setAgentTool_def update_conv')
qed

lemma ex_manager_slash_eval:
  "tools ex_manager_slash
     = [(''zeta/x/echo'', toolEntry ''zeta'' slashTool), (''alpha/echo'', toolEntry ''alpha'' echoTool),
        (''beta/echo'', toolEntry ''beta'' echoTool)]"
  "servers ex_manager_slash
     = [(''zeta'', sseServer ''zeta'' ''http://z''), (''alpha'', sseServer ''alpha'' ''http://a''),
        (''beta'', sseServer ''beta'' ''http://b'')]"
  by (simp_all add: ex_manager_slash_def ex_config_slash_def ex_upstream_slash_def slashTool_def
        initialize_def new_manager_def ex_defs model_defs sseServer_def)

lemma ex_manager_exact_eval:
  "tools ex_manager_exact
     = [(''zeta/x/echo'', toolEntry ''zeta'' slashTool), (''yota/x/echo'', toolEntry ''yota'' slashTool),
        (''x/echo'', toolEntry ''x'' echoTool)]"
  "servers ex_manager_exact
     = [(''zeta'', sseServer ''zeta'' ''http://z''), (''yota'', sseServer ''yota'' ''http://y''),
        (''x'', sseServer ''x'' ''http://x'')]"
  by (simp_all add: ex_manager_exact_def ex_config_exact_def ex_upstream_slash_def slashTool_def
        initialize_def new_manager_def ex_defs model_defs sseServer_def)

lemma ex_integration_eval:
  "mcpManager ex_integration_slash = Some ex_manager_slash"
  "toolRegistry ex_integration_slash = foldl setAgentTool [] (tools ex_manager_slash)"
  "mcpManager ex_integration_exact = Some ex_manager_exact"
  "toolRegistry ex_integration_exact = foldl setAgentTool [] (tools ex_manager_exact)"
  "mcpManager ex_integration_echo = Some (initialize ex_upstream (new_manager ex_config))"
  "toolRegistry ex_integration_echo
     = foldl setAgentTool [] (tools (initialize ex_upstream (new_manager ex_config)))"
  by (simp_all add: ex_integration_slash_def ex_integration_exact_def ex_integration_echo_def
        ex_manager_slash_def ex_manager_exact_def int_initialize_def new_integration_def
        registerTools_def Let_def)

lemma ex_endsWith_slash [simp]:
  "endsWith ''zeta/x/echo'' ''/echo''" "endsWith ''zeta/x/echo'' ''/x/echo''"
  by (simp_all add: endsWith_def suffix_to_prefix)

text \<open>Claim C10, as stated, fails. First registry: \<open>zeta\<close> lists a tool named \<open>x/echo\<close>,
  then \<open>alpha\<close> and \<open>beta\<close> both list \<open>echo\<close>. executeTool for \<open>echo\<close> goes to \<open>beta\<close>, the
  last of the two, but the manager's callTool for \<open>echo\<close> goes to neither of them: the
  first key ending with \<open>/echo\<close> is \<open>zeta/x/echo\<close>, and \<open>zeta\<close> is asked for \<open>x/echo\<close>. Second
  registry: \<open>zeta\<close> and \<open>yota\<close> both list \<open>x/echo\<close>, then the server \<open>x\<close> lists \<open>echo\<close>.
  executeTool for \<open>x/echo\<close> goes to \<open>yota\<close>, the last of the two, but callTool for \<open>x/echo\<close>
  finds the key \<open>x/echo\<close> itself and goes to the server \<open>x\<close>, last in the registry, for its
  tool \<open>echo\<close>.\<close>

theorem executeTool_tie_break_counterexample:
  "map (\<lambda>kt. (fst kt, name (snd kt))) (tools ex_manager_slash)
     = [(''zeta/x/echo'', ''x/echo''), (''alpha/echo'', ''echo''), (''beta/echo'', ''echo'')]
   \<and> managerSent (fst (executeTool ex_upstream_slash ex_integration_slash ''echo'' ''{}''))
       = sent ex_manager_slash @ [(''beta'', ''tools/call'', ToolCallParams ''echo'' ''{}'')]
   \<and> sent (fst (callTool ex_upstream_slash ex_manager_slash ''echo'' ''{}''))
       = sent ex_manager_slash @ [(''zeta'', ''tools/call'', ToolCallParams ''x/echo'' ''{}'')]
   \<and> map (\<lambda>kt. (fst kt, name (snd kt))) (tools ex_manager_exact)
       = [(''zeta/x/echo'', ''x/echo''), (''yota/x/echo'', ''x/echo''), (''x/echo'', ''echo'')]
   \<and> managerSent (fst (executeTool ex_upstream_slash ex_integration_exact ''x/echo'' ''{}''))
       = sent ex_manager_exact @ [(''yota'', ''tools/call'', ToolCallParams ''x/echo'' ''{}'')]
   \<and> sent (fst (callTool ex_upstream_slash ex_manager_exact ''x/echo'' ''{}''))
       = sent ex_manager_exact @ [(''x'', ''tools/call'', ToolCallParams ''echo'' ''{}'')]"
proof -
  note ev = ex_manager_slash_eval ex_manager_exact_eval ex_integration_eval
  note call = callTool_def findTool_def callServerMethod_def makeSSERequest_def sseServer_def
    toolEntry_def slashTool_def echoTool_def ex_upstream_slash_def ex_upstream_def okReply_def
  have a1: "map (\<lambda>kt. (fst kt, name (snd kt))) (tools ex_manager_slash)
     = [(''zeta/x/echo'', ''x/echo''), (''alpha/echo'', ''echo''), (''beta/echo'', ''echo'')]"
    by (simp add: ev toolEntry_def slashTool_def echoTool_def)
  have a2: "managerSent (fst (executeTool ex_upstream_slash ex_integration_slash ''echo'' ''{}''))
       = sent ex_manager_slash @ [(''beta'', ''tools/call'', ToolCallParams ''echo'' ''{}'')]"
    by (simp add: executeTool_def ev setAgentTool_def agentOf_def managerSent_def call)
  have a3: "sent (fst (callTool ex_upstream_slash ex_manager_slash ''echo'' ''{}''))
       = sent ex_manager_slash @ [(''zeta'', ''tools/call'', ToolCallParams ''x/echo'' ''{}'')]"
    by (simp add: ev call)
  have b1: "map (\<lambda>kt. (fst kt, name (snd kt))) (tools ex_manager_exact)
       = [(''zeta/x/echo'', ''x/echo''), (''yota/x/echo'', ''x/echo''), (''x/echo'', ''echo'')]"
    by (simp add: ev toolEntry_def slashTool_def echoTool_def)
  have b2: "managerSent (fst (executeTool ex_upstream_slash ex_integration_exact ''x/echo'' ''{}''))
       = sent ex_manager_exact @ [(''yota'', ''tools/call'', ToolCallParams ''x/echo'' ''{}'')]"
    by (simp add: executeTool_def ev setAgentTool_def agentOf_def managerSent_def call)
  have b3: "sent (fst (callTool ex_upstream_slash ex_manager_exact ''x/echo'' ''{}''))
       = sent ex_manager_exact @ [(''x'', ''tools/call'', ToolCallParams ''echo'' ''{}'')]"
    by (simp add: ev call)
  show ?thesis by (intro conjI) (fact a1, fact a2, fact a3, fact b1, fact b2, fact b3)
qed

lemma nameKeyed_nth:
  "nameKeyed ts \<Longrightarrow> i < length ts \<Longrightarrow> \<exists>a. fst (ts ! i) = toolKey a (name (snd (ts ! i)))"
proof -
  assume k: "nameKeyed ts" and i: "i < length ts"
  obtain key t where kt: "ts ! i = (key, t)" by (cases "ts ! i")
  from k i have "case ts ! i of (key, t) \<Rightarrow> endsWith key (''/'' @ name t)"
    by (simp add: nameKeyed_def list_all_length)
  hence "suffix (''/'' @ name t) key" using kt by (simp add: endsWith_def)
  then obtain a where "key = a @ ''/'' @ name t" unfolding suffix_def by blast
  thus ?thesis using kt by (auto simp: toolKey_def)
qed

text \<open>Claim C10, amended. registerTools keys its flattened registry by bare tool name, so
  for every bare name \<open>n\<close> only the descriptor built from the last entry of the manager's
  registry named \<open>n\<close> (entry \<open>j\<close>) survives. executeTool for \<open>n\<close> calls the manager's callTool
  with the qualified key that descriptor holds, which resolves by exact match to entry \<open>j\<close>
  again. The manager's callTool for \<open>n\<close> resolves to the entry stored under the key \<open>n\<close> itself
  when there is one, and otherwise to the first entry whose key ends with \<open>/n\<close>. That is
  the first entry named \<open>n\<close>, of another server than the last, and so the opposite
  tie-break, only when no key is \<open>n\<close> and no earlier key ends with \<open>/n\<close>.\<close>

theorem executeTool_last_entry_wins:
  assumes mgr: "mcpManager it = Some m"
    and keys: "distinct (map fst (tools m))"
    and named: "j < length (tools m)" "name (snd (tools m ! j)) = n"
    and last: "\<forall>l. j < l \<and> l < length (tools m) \<longrightarrow> name (snd (tools m ! l)) \<noteq> n"
  shows "distinct (map fst (toolRegistry (registerTools it)))
       \<and> map_of (toolRegistry (registerTools it)) n = Some (agentOf (tools m ! j))
       \<and> executeTool up (registerTools it) n args
           = (case callTool up m (fst (tools m ! j)) args of
                (m', Inl e) \<Rightarrow> ((registerTools it)\<lparr>mcpManager := Some m'\<rparr>, Inl (ManagerError e))
              | (m', Inr r) \<Rightarrow> ((registerTools it)\<lparr>mcpManager := Some m'\<rparr>, Inr r))
       \<and> findTool m (fst (tools m ! j)) = Some (snd (tools m ! j))
       \<and> (\<forall>t. map_of (tools m) n = Some t \<longrightarrow> findTool m n = Some t)
       \<and> (\<forall>i. map_of (tools m) n = None \<and> i < length (tools m)
                \<and> endsWith (fst (tools m ! i)) (''/'' @ n)
                \<and> (\<forall>l<i. \<not> endsWith (fst (tools m ! l)) (''/'' @ n))
              \<longrightarrow> findTool m n = Some (snd (tools m ! i)))
       \<and> (\<forall>i. i < j \<and> name (snd (tools m ! i)) = n \<and> nameKeyed (tools m)
                \<and> map_of (tools m) n = None
                \<and> (\<forall>l<i. \<not> endsWith (fst (tools m ! l)) (''/'' @ n))
              \<longrightarrow> findTool m n = Some (snd (tools m ! i))
                \<and> (\<exists>a b. fst (tools m ! i) = toolKey a n \<and> fst (tools m ! j) = toolKey b n
                       \<and> a \<noteq> b))"
proof -
  let ?ts = "tools m"
  have reg: "toolRegistry (registerTools it) = foldl setAgentTool [] ?ts"
    and mgr': "mcpManager (registerTools it) = Some m"
    using mgr by (simp_all add: registerTools_def)
  have d: "distinct (map fst (toolRegistry (registerTools it)))"
    unfolding reg by (rule foldl_setAgentTool_distinct) simp
  have survivor: "map_of (toolRegistry (registerTools it)) n = Some (agentOf (?ts ! j))"
    unfolding reg using named last by (rule foldl_setAgentTool_last)
  have "?ts ! j \<in> set ?ts" using named(1) by simp
  hence "(fst (?ts ! j), snd (?ts ! j)) \<in> set ?ts" by simp
  hence exact: "map_of ?ts (fst (?ts ! j)) = Some (snd (?ts ! j))"
    using keys by (simp only: map_of_eq_Some_iff)
  hence fj: "findTool m (fst (?ts ! j)) = Some (snd (?ts ! j))"
    by (simp add: findTool_def)
  have ex: "executeTool up (registerTools it) n args
      = (case callTool up m (fst (tools m ! j)) args of
           (m', Inl e) \<Rightarrow> ((registerTools it)\<lparr>mcpManager := Some m'\<rparr>, Inl (ManagerError e))
         | (m', Inr r) \<Rightarrow> ((registerTools it)\<lparr>mcpManager := Some m'\<rparr>, Inr r))"
    by (simp add: executeTool_def survivor mgr' agentOf_def)
  have byKey: "\<forall>t. map_of ?ts n = Some t \<longrightarrow> findTool m n = Some t"
    by (simp add: findTool_def)
  have bySuffix: "findTool m n = Some (snd (?ts ! i))"
    if "map_of ?ts n = None" "i < length ?ts" "endsWith (fst (?ts ! i)) (''/'' @ n)"
      "\<forall>l<i. \<not> endsWith (fst (?ts ! l)) (''/'' @ n)" for i
    using that firstBySuffix_first[of i ?ts n] by (simp add: findTool_def)
  have bySuffix': "\<forall>i. map_of ?ts n = None \<and> i < length ?ts
        \<and> endsWith (fst (?ts ! i)) (''/'' @ n)
        \<and> (\<forall>l<i. \<not> endsWith (fst (?ts ! l)) (''/'' @ n))
      \<longrightarrow> findTool m n = Some (snd (?ts ! i))"
    using bySuffix by (intro allI impI) (elim conjE)
  have opposite: "findTool m n = Some (snd (?ts ! i))
      \<and> (\<exists>a b. fst (?ts ! i) = toolKey a n \<and> fst (?ts ! j) = toolKey b n \<and> a \<noteq> b)"
    if h: "i < j" "name (snd (?ts ! i)) = n" "nameKeyed ?ts" "map_of ?ts n = None"
      "\<forall>l<i. \<not> endsWith (fst (?ts ! l)) (''/'' @ n)" for i
  proof -
    have il: "i < length ?ts" using h(1) named(1) by simp
    obtain a where a: "fst (?ts ! i) = toolKey a n"
      using nameKeyed_nth[OF h(3) il] h(2) by auto
    obtain b where b: "fst (?ts ! j) = toolKey b n"
      using nameKeyed_nth[OF h(3) named(1)] named(2) by auto
    have "map fst ?ts ! i \<noteq> map fst ?ts ! j"
      using keys h(1) named(1) il by (simp add: nth_eq_iff_index_eq del: nth_map)
    hence "fst (?ts ! i) \<noteq> fst (?ts ! j)" using il named(1) by simp
    hence ab: "a \<noteq> b" using a b by auto
    have "endsWith (fst (?ts ! i)) (''/'' @ n)" unfolding a by (rule endsWith_toolKey)
    hence "findTool m n = Some (snd (?ts ! i))" using bySuffix[OF h(4) il _ h(5)] by simp
    with a b ab show ?thesis by blast
  qed
  have opposite': "\<forall>i. i < j \<and> name (snd (?ts ! i)) = n \<and> nameKeyed ?ts
        \<and> map_of ?ts n = None
        \<and> (\<forall>l<i. \<not> endsWith (fst (?ts ! l)) (''/'' @ n))
      \<longrightarrow> findTool m n = Some (snd (?ts ! i))
        \<and> (\<exists>a b. fst (?ts ! i) = toolKey a n \<and> fst (?ts ! j) = toolKey b n \<and> a \<noteq> b)"
    using opposite by (intro allI impI) (elim conjE)
  show ?thesis
    by (intro conjI) (fact d, fact survivor, fact ex, fact fj, fact byKey, fact bySuffix',
        fact opposite')
qed

text \<open>On the four configured servers, where \<open>alpha\<close> and \<open>beta\<close> both list \<open>echo\<close>:
  executeTool sends the call through \<open>beta\<close>, the manager's callTool through \<open>alpha\<close>.\<close>

theorem executeTool_last_entry_wins_witness:
  "map_option at_server (map_of (toolRegistry ex_integration_echo) ''echo'') = Some ''beta''
   \<and> managerSent (fst (executeTool ex_upstream ex_integration_echo ''echo'' ''{}''))
       = sent (initialize ex_upstream (new_manager ex_config))
           @ [(''beta'', ''tools/call'', ToolCallParams ''echo'' ''{}'')]
   \<and> sent (fst (callTool ex_upstream (initialize ex_upstream (new_manager ex_config))
        ''echo'' ''{}''))
       = sent (initialize ex_upstream (new_manager ex_config))
           @ [(''alpha'', ''tools/call'', ToolCallParams ''echo'' ''{}'')]"
proof -
  let ?m = "initialize ex_upstream (new_manager ex_config)"
  note call = callTool_def findTool_def callServerMethod_def makeSSERequest_def sseServer_def
    toolEntry_def echoTool_def ex_upstream_def okReply_def
  have ts: "tools ?m = [(''alpha/echo'', toolEntry ''alpha'' echoTool),
      (''beta/echo'', toolEntry ''beta'' echoTool)]"
    and ss: "servers ?m = [(''alpha'', sseServer ''alpha'' ''http://a''),
      (''beta'', sseServer ''beta'' ''http://b'')]"
    by (simp_all add: ex_initialize)
  have mgr: "mcpManager ex_integration_echo = Some ?m" by (simp add: ex_integration_eval)
  have same: "registerTools ex_integration_echo = ex_integration_echo"
    by (simp add: registerTools_def ex_integration_eval)
  have keys: "distinct (map fst (tools ?m))" by (simp add: ts)
  have named: "1 < length (tools ?m)" "name (snd (tools ?m ! 1)) = ''echo''"
    by (simp_all add: ts toolEntry_def echoTool_def)
  have last: "\<forall>l. 1 < l \<and> l < length (tools ?m) \<longrightarrow> name (snd (tools ?m ! l)) \<noteq> ''echo''"
  proof (intro allI impI)
    fix l assume "1 < l \<and> l < length (tools ?m)"
    hence "1 < l \<and> l < 2" by (simp add: ts)
    hence False by arith
    thus "name (snd (tools ?m ! l)) \<noteq> ''echo''" by simp
  qed
  note t = executeTool_last_entry_wins[OF mgr keys named last, of ex_upstream "''{}''"]
  have reg: "map_option at_server (map_of (toolRegistry ex_integration_echo) ''echo'')
      = Some ''beta''"
    using t by (simp add: same ts agentOf_def toolEntry_def)
  have cb: "callTool ex_upstream ?m ''beta/echo'' ''{}''
      = (?m\<lparr>sent := sent ?m @ [(''beta'', ''tools/call'', ToolCallParams ''echo'' ''{}'')]\<rparr>,
         Inr (Some (noResult\<lparr>res_content := ''hi''\<rparr>)))"
    by (simp add: ts ss call)
  have ex: "managerSent (fst (executeTool ex_upstream ex_integration_echo ''echo'' ''{}''))
       = sent ?m @ [(''beta'', ''tools/call'', ToolCallParams ''echo'' ''{}'')]"
    using t by (simp add: same ts cb managerSent_def)
  have ca: "sent (fst (callTool ex_upstream ?m ''echo'' ''{}''))
       = sent ?m @ [(''alpha'', ''tools/call'', ToolCallParams ''echo'' ''{}'')]"
    by (simp add: ts ss call)
  show ?thesis by (intro conjI) (fact reg, fact ex, fact ca)
qed

end
